theory Spec2Isabelle
  imports Complex_Main "HOL-Library.Multiset"
begin

section \<open>The CenterNet ground-truth builder (ops/gt_builder.py)\<close>

text \<open>
  The embedding follows \<^verbatim>\<open>build_heatmap_and_regressed_features\<close> line by line.
  Conventions of the model:
  \<^item> a number of the selected floating-point kind is the real number it stands for.
    A cast to the kind and every arithmetic operation on tensors of the kind is the
    exact operation followed by the rounding \<open>rnd\<close> of the kind: to the nearest
    representable number, ties to the even significand, with gradual underflow.
    The exponent range is not bounded above: overflow to an infinity, and NaN, are
    outside the model, and so is a division by zero;
  \<^item> a tensor of shape \<open>[n]\<close> is a list, a tensor of shape \<open>[n, 2]\<close> or \<open>[n, 4]\<close> is a
    list of pairs or of 4-tuples, the heatmap of shape \<open>[H, W, C]\<close> is a list of lists
    of lists;
  \<^item> a vectorised operation on the columns of \<open>boxes\<close> is the map of the operation on
    one box over the list of boxes;
  \<^item> an exception raised by Python or TensorFlow is a value \<open>Inl e\<close> of the result.
    Shape mismatches, negative dimensions and out-of-range scatter indices are
    \<open>Invalid_argument\<close>, which is what TensorFlow raises for them on a CPU device;
  \<^item> an \<open>int32\<close> value is an \<^typ>\<open>int\<close> in the range of \<open>int32\<close>; the cast of a number
    to \<open>int32\<close> truncates, and gives \<open>-2\<^sup>3\<^sup>1\<close> when the truncation is outside that range,
    as the conversion instruction of an x86 CPU does;
  \<^item> \<open>output_size\<close> and \<open>input_size\<close> are pairs \<open>(height, width)\<close> of natural numbers, and
    \<open>num_classes\<close> and \<open>max_num_instances\<close> are natural numbers; \<open>num_detections\<close>,
    \<open>gaussian_rad\<close> and \<open>class_offset\<close> are Python integers.
\<close>

subsection \<open>Data\<close>

datatype error = Unsupported_datatype | Invalid_argument

datatype tf_dtype = Float16 | Bfloat16 | Float32

text \<open>A box is \<open>(ymin, xmin, ymax, xmax)\<close>, a row of \<open>labels['bbox']\<close>.\<close>

type_synonym box = "real \<times> real \<times> real \<times> real"

record labels =
  bbox :: "box list"
  classes :: "int list"
  num_detections :: int

type_synonym tensor3 = "real list list list"

text \<open>The returned dictionary. The key \<open>size\<close> is the field \<open>size_hw\<close>.\<close>

record targets =
  ct_heatmaps :: tensor3
  ct_offset :: "(real \<times> real) list"
  size_hw :: "(real \<times> real) list"
  box_mask :: "int list"
  box_indices :: "(int \<times> int) list"

subsection \<open>The numbers of \<open>tf.float16\<close>, \<open>tf.bfloat16\<close> and \<open>tf.float32\<close>\<close>

text \<open>
  The number of bits of the significand, the hidden bit included, and the exponent of
  the smallest normal number.
\<close>

fun precision :: "tf_dtype \<Rightarrow> nat" where
  "precision Float16 = 11"
| "precision Bfloat16 = 8"
| "precision Float32 = 24"

fun emin :: "tf_dtype \<Rightarrow> int" where
  "emin Float16 = - 14"
| "emin Bfloat16 = - 126"
| "emin Float32 = - 126"

text \<open>The nearest integer, a tie going to the even one.\<close>

definition round_half_even :: "real \<Rightarrow> int" where
  "round_half_even y =
     (let f = \<lfloor>y\<rfloor>; d = y - real_of_int f
      in if d < 1 / 2 then f else if 1 / 2 < d then f + 1
         else if even f then f else f + 1)"

text \<open>
  The exponent of the unit in the last place of the numbers of the binade of \<open>x\<close>;
  below the smallest normal number it stays that of the subnormal numbers.
\<close>

definition ulp_exponent :: "tf_dtype \<Rightarrow> real \<Rightarrow> int" where
  "ulp_exponent dt x = max \<lfloor>log 2 \<bar>x\<bar>\<rfloor> (emin dt) - int (precision dt) + 1"

text \<open>
  The rounding of a real number to the kind \<open>dt\<close>: \<open>tf.cast(x, dtype)\<close> of a number, and
  the result of an arithmetic operation whose exact result is \<open>x\<close>.
\<close>

definition rnd :: "tf_dtype \<Rightarrow> real \<Rightarrow> real" where
  "rnd dt x =
     (if x = 0 then 0
      else 2 powi ulp_exponent dt x *
           real_of_int (round_half_even (x / 2 powi ulp_exponent dt x)))"

text \<open>The numbers of the kind \<open>dt\<close>: a significand of \<open>precision dt\<close> bits and an exponent.\<close>

definition representable :: "tf_dtype \<Rightarrow> real \<Rightarrow> bool" where
  "representable dt x \<longleftrightarrow>
     (\<exists>m e. x = real_of_int m * 2 powi e \<and> \<bar>m\<bar> < 2 ^ precision dt \<and>
            emin dt - int (precision dt) + 1 \<le> e)"

subsection \<open>Primitives of Python and TensorFlow\<close>

text \<open>Lines 81-90: the \<open>if/elif/else\<close> chain on the \<open>dtype\<close> string.\<close>

definition parse_dtype :: "string \<Rightarrow> error + tf_dtype" where
  "parse_dtype dtype =
     (if dtype = ''float16'' then Inr Float16
      else if dtype = ''bfloat16'' then Inr Bfloat16
      else if dtype = ''float32'' then Inr Float32
      else Inl Unsupported_datatype)"

text \<open>The slice \<open>xs[:n]\<close>: a negative \<open>n\<close> counts from the end, nothing raises.\<close>

definition slice_to :: "int \<Rightarrow> 'a list \<Rightarrow> 'a list" where
  "slice_to n xs =
     (if 0 \<le> n then take (nat n) xs else take (length xs - nat (- n)) xs)"

text \<open>
  \<open>tf.cast(x, tf.int32)\<close> of a number truncates towards zero; a truncation outside the
  range of \<open>int32\<close> gives \<open>-2\<^sup>3\<^sup>1\<close>.
\<close>

definition cast_int32 :: "real \<Rightarrow> int" where
  "cast_int32 x =
     (let k = (if 0 \<le> x then \<lfloor>x\<rfloor> else \<lceil>x\<rceil>)
      in if - (2 ^ 31) \<le> k \<and> k < 2 ^ 31 then k else - (2 ^ 31))"

definition zeros3 :: "nat \<Rightarrow> nat \<Rightarrow> nat \<Rightarrow> tensor3" where
  "zeros3 h w c = replicate h (replicate w (replicate c 0))"

definition cell :: "tensor3 \<Rightarrow> nat \<Rightarrow> nat \<Rightarrow> nat \<Rightarrow> real" where
  "cell t i j c = t ! i ! j ! c"

text \<open>The tensor of shape \<open>[h, w, n]\<close> whose cell \<open>(i, j, c)\<close> is \<open>f i j c\<close>.\<close>

definition tabulate3 :: "nat \<Rightarrow> nat \<Rightarrow> nat \<Rightarrow> (nat \<Rightarrow> nat \<Rightarrow> nat \<Rightarrow> real) \<Rightarrow> tensor3" where
  "tabulate3 h w n f = map (\<lambda>i. map (\<lambda>j. map (\<lambda>c. f i j c) [0..<n]) [0..<w]) [0..<h]"

text \<open>
  \<open>tf.stack(..., axis=-1)\<close> of vectors: the vectors must have one length.
\<close>

definition stack3 :: "'a list \<Rightarrow> 'b list \<Rightarrow> 'c list \<Rightarrow> error + ('a \<times> 'b \<times> 'c) list" where
  "stack3 a b c =
     (if length b = length a \<and> length c = length a
      then Inr (zip a (zip b c)) else Inl Invalid_argument)"

definition stack4 ::
  "'a list \<Rightarrow> 'b list \<Rightarrow> 'c list \<Rightarrow> 'd list \<Rightarrow> error + ('a \<times> 'b \<times> 'c \<times> 'd) list" where
  "stack4 a b c d =
     (if length b = length a \<and> length c = length a \<and> length d = length a
      then Inr (zip a (zip b (zip c d))) else Inl Invalid_argument)"

text \<open>
  \<open>tf.math.reduce_max(ts, axis=0)\<close> of a stack of heatmaps: the elementwise maximum.
  The stack is never empty where the source calls it (\<open>num_objects > 0\<close>); the
  model refuses the empty stack.
\<close>

definition tensor_max :: "tensor3 \<Rightarrow> tensor3 \<Rightarrow> tensor3" where
  "tensor_max s t = map2 (map2 (map2 max)) s t"

fun reduce_max :: "tensor3 list \<Rightarrow> error + tensor3" where
  "reduce_max [] = Inl Invalid_argument"
| "reduce_max (g # gs) = Inr (fold tensor_max gs g)"

text \<open>
  \<open>tf.tensor_scatter_nd_update\<close> on the rows of a tensor of shape \<open>[n]\<close> or
  \<open>[n, 2]\<close>: one update per index, applied in the order of the indices.
\<close>

definition tensor_scatter_nd_update ::
  "'a list \<Rightarrow> nat list \<Rightarrow> 'a list \<Rightarrow> error + 'a list" where
  "tensor_scatter_nd_update tensor indices updates =
     (if length indices \<noteq> length updates then Inl Invalid_argument
      else if \<not> list_all (\<lambda>i. i < length tensor) indices then Inl Invalid_argument
      else Inr (fold (\<lambda>(i, v) t. t[i := v]) (zip indices updates) tensor))"

text \<open>The same on single cells of the heatmap, with indices \<open>(y, x, class)\<close>.\<close>

definition in_bounds3 :: "tensor3 \<Rightarrow> int \<times> int \<times> int \<Rightarrow> bool" where
  "in_bounds3 t idx =
     (case idx of (y, x, c) \<Rightarrow>
        0 \<le> y \<and> nat y < length t \<and>
        0 \<le> x \<and> nat x < length (t ! nat y) \<and>
        0 \<le> c \<and> nat c < length (t ! nat y ! nat x))"

definition update3 :: "tensor3 \<Rightarrow> int \<times> int \<times> int \<Rightarrow> real \<Rightarrow> tensor3" where
  "update3 t idx v =
     (case idx of (y, x, c) \<Rightarrow>
        t[nat y := (t ! nat y)[nat x := (t ! nat y ! nat x)[nat c := v]]])"

definition tensor_scatter_nd_update3 ::
  "tensor3 \<Rightarrow> (int \<times> int \<times> int) list \<Rightarrow> real list \<Rightarrow> error + tensor3" where
  "tensor_scatter_nd_update3 tensor indices updates =
     (if length indices \<noteq> length updates then Inl Invalid_argument
      else if \<not> list_all (in_bounds3 tensor) indices then Inl Invalid_argument
      else Inr (fold (\<lambda>(idx, v) t. update3 t idx v) (zip indices updates) tensor))"

subsection \<open>The helper \<open>preprocess_ops.draw_gaussian\<close>\<close>

text \<open>
  Modelled from the spec: \<open>preprocess_ops.draw_gaussian\<close> is not among the sources.
  Section 4.3 of the specification: for the blob \<open>(class_id, row, col, radius)\<close> the
  result has the heatmap's shape; channel \<open>class_id\<close> holds, within the
  \<open>(2r+1) \<times> (2r+1)\<close> window centred at \<open>(row, col)\<close> and clipped to the grid, the value
  \<open>exp (- ((i - row)\<^sup>2 + (j - col)\<^sup>2) / (2 \<sigma>\<^sup>2))\<close> with \<open>\<sigma> = r / 3\<close>, and \<open>0\<close> elsewhere.
\<close>

definition in_window :: "real \<times> real \<times> real \<times> real \<Rightarrow> nat \<Rightarrow> nat \<Rightarrow> nat \<Rightarrow> bool" where
  "in_window blob i j c =
     (case blob of (cls, row, col, r) \<Rightarrow>
        real c = cls \<and> \<bar>real i - row\<bar> \<le> r \<and> \<bar>real j - col\<bar> \<le> r)"

definition gaussian_value :: "real \<times> real \<times> real \<times> real \<Rightarrow> nat \<Rightarrow> nat \<Rightarrow> nat \<Rightarrow> real" where
  "gaussian_value blob i j c =
     (case blob of (cls, row, col, r) \<Rightarrow>
        if in_window blob i j c
        then exp (- ((real i - row)\<^sup>2 + (real j - col)\<^sup>2) / (2 * (r / 3)\<^sup>2))
        else 0)"

definition draw_gaussian ::
  "nat \<times> nat \<times> nat \<Rightarrow> real \<times> real \<times> real \<times> real \<Rightarrow> tensor3" where
  "draw_gaussian shape blob =
     (case shape of (h, w, n) \<Rightarrow> tabulate3 h w n (gaussian_value blob))"

subsection \<open>The casts of the inputs (lines 97-105)\<close>

text \<open>Line 97: a row of \<open>tf.cast(labels['bbox'], dtype)\<close>.\<close>

definition cast_box :: "tf_dtype \<Rightarrow> box \<Rightarrow> box" where
  "cast_box dt b =
     (case b of (ymin, xmin, ymax, xmax) \<Rightarrow>
        (rnd dt ymin, rnd dt xmin, rnd dt ymax, rnd dt xmax))"

text \<open>Line 99: an entry of \<open>tf.cast(labels['classes'] - class_offset, dtype)\<close>.\<close>

definition cast_class :: "tf_dtype \<Rightarrow> int \<Rightarrow> int \<Rightarrow> real" where
  "cast_class dt class_offset c = rnd dt (real_of_int (c - class_offset))"

text \<open>Lines 102-105: \<open>tf.cast(input_size, dtype)\<close> and \<open>tf.cast(output_size, dtype)\<close>.\<close>

definition cast_size :: "tf_dtype \<Rightarrow> nat \<times> nat \<Rightarrow> real \<times> real" where
  "cast_size dt sz = (rnd dt (real (fst sz)), rnd dt (real (snd sz)))"

text \<open>
  Line 147: \<open>tf.zeros((output_h, output_w, num_classes), dtype)\<close> takes its first two
  dimensions from the cast \<open>output_size\<close>, converted to \<open>int32\<close>.
\<close>

definition output_h :: "tf_dtype \<Rightarrow> nat \<times> nat \<Rightarrow> int" where
  "output_h dt output_size = cast_int32 (fst (cast_size dt output_size))"

definition output_w :: "tf_dtype \<Rightarrow> nat \<times> nat \<Rightarrow> int" where
  "output_w dt output_size = cast_int32 (snd (cast_size dt output_size))"

subsection \<open>The geometry of one box (lines 107-143)\<close>

text \<open>The boxes of this subsection are rows of the cast tensor \<open>boxes\<close>.\<close>

definition width_ratio :: "tf_dtype \<Rightarrow> nat \<times> nat \<Rightarrow> nat \<times> nat \<Rightarrow> real" where
  "width_ratio dt output_size input_size =
     rnd dt (snd (cast_size dt output_size) / snd (cast_size dt input_size))"

definition height_ratio :: "tf_dtype \<Rightarrow> nat \<times> nat \<Rightarrow> nat \<times> nat \<Rightarrow> real" where
  "height_ratio dt output_size input_size =
     rnd dt (fst (cast_size dt output_size) / fst (cast_size dt input_size))"

definition yct :: "tf_dtype \<Rightarrow> box \<Rightarrow> real" where
  "yct dt b = (case b of (ytl, xtl, ybr, xbr) \<Rightarrow> rnd dt (rnd dt (ytl + ybr) / 2))"

definition xct :: "tf_dtype \<Rightarrow> box \<Rightarrow> real" where
  "xct dt b = (case b of (ytl, xtl, ybr, xbr) \<Rightarrow> rnd dt (rnd dt (xtl + xbr) / 2))"

definition scale_xct :: "tf_dtype \<Rightarrow> real \<Rightarrow> box \<Rightarrow> real" where
  "scale_xct dt wr b = rnd dt (xct dt b * wr)"

definition scale_yct :: "tf_dtype \<Rightarrow> real \<Rightarrow> box \<Rightarrow> real" where
  "scale_yct dt hr b = rnd dt (yct dt b * hr)"

text \<open>The floor of a number of the kind is a number of the kind: nothing is rounded.\<close>

definition scale_xct_floor :: "tf_dtype \<Rightarrow> real \<Rightarrow> box \<Rightarrow> real" where
  "scale_xct_floor dt wr b = real_of_int \<lfloor>scale_xct dt wr b\<rfloor>"

definition scale_yct_floor :: "tf_dtype \<Rightarrow> real \<Rightarrow> box \<Rightarrow> real" where
  "scale_yct_floor dt hr b = real_of_int \<lfloor>scale_yct dt hr b\<rfloor>"

definition ct_offset_values :: "tf_dtype \<Rightarrow> real \<Rightarrow> real \<Rightarrow> box \<Rightarrow> real \<times> real" where
  "ct_offset_values dt hr wr b =
     (rnd dt (scale_yct dt hr b - scale_yct_floor dt hr b),
      rnd dt (scale_xct dt wr b - scale_xct_floor dt wr b))"

definition box_heights_widths :: "tf_dtype \<Rightarrow> real \<Rightarrow> real \<Rightarrow> box \<Rightarrow> real \<times> real" where
  "box_heights_widths dt hr wr b =
     (case b of (ytl, xtl, ybr, xbr) \<Rightarrow>
        (rnd dt (rnd dt (ybr - ytl) * hr), rnd dt (rnd dt (xbr - xtl) * wr)))"

definition box_index_values :: "tf_dtype \<Rightarrow> real \<Rightarrow> real \<Rightarrow> box \<Rightarrow> int \<times> int" where
  "box_index_values dt hr wr b =
     (cast_int32 (scale_yct_floor dt hr b),
      cast_int32 (scale_xct_floor dt wr b))"

subsection \<open>The heatmap (lines 161-197)\<close>

text \<open>
  Lines 165-174. The helper \<open>preprocess_ops.gaussian_radius\<close> is not among the
  sources and the specification does not give the coefficients of its three
  quadratics: it is the parameter \<open>gaussian_radius\<close>, applied to the ceil-rounded
  \<open>(height, width)\<close> and to \<open>gaussian_iou\<close>.
\<close>

definition radius ::
  "(real \<times> real \<Rightarrow> real \<Rightarrow> real) \<Rightarrow> int \<Rightarrow> real \<Rightarrow> nat \<Rightarrow> int \<Rightarrow>
   (real \<times> real) list \<Rightarrow> real list" where
  "radius gaussian_radius gaussian_rad gaussian_iou max_num_instances num_objects hws =
     (if gaussian_rad = - 1 then
        map (\<lambda>hw. max (real_of_int \<lfloor>gaussian_radius
                     (real_of_int \<lceil>fst hw\<rceil>, real_of_int \<lceil>snd hw\<rceil>) gaussian_iou\<rfloor>) 1) hws
      else slice_to num_objects (replicate max_num_instances (real_of_int gaussian_rad)))"

text \<open>
  Lines 175-177: the blobs \<open>(class, row, col, radius)\<close>, one per instance. The four columns
  that \<open>tf.stack\<close> joins are tensors of the selected kind (line 173 builds the constant
  radius in it), so the column of the radii holds the radii rounded to the kind.
\<close>

definition ct_blobs ::
  "tf_dtype \<Rightarrow> (real \<times> real \<Rightarrow> real \<Rightarrow> real) \<Rightarrow> real list \<Rightarrow> box list \<Rightarrow>
   real \<Rightarrow> real \<Rightarrow> int \<Rightarrow> real \<Rightarrow> nat \<Rightarrow> int \<Rightarrow>
   error + (real \<times> real \<times> real \<times> real) list" where
  "ct_blobs dt gaussian_radius cls boxes hr wr
       gaussian_rad gaussian_iou max_num_instances num_objects =
     stack4 cls
       (map (scale_yct_floor dt hr) boxes)
       (map (scale_xct_floor dt wr) boxes)
       (map (rnd dt)
          (radius gaussian_radius gaussian_rad gaussian_iou max_num_instances num_objects
             (map (box_heights_widths dt hr wr) boxes)))"

text \<open>Lines 163-186: the branch \<open>use_gaussian_bump\<close>.\<close>

definition gaussian_heatmap ::
  "tf_dtype \<Rightarrow> (real \<times> real \<Rightarrow> real \<Rightarrow> real) \<Rightarrow> nat \<times> nat \<times> nat \<Rightarrow> real list \<Rightarrow> box list \<Rightarrow>
   real \<Rightarrow> real \<Rightarrow> int \<Rightarrow> real \<Rightarrow> nat \<Rightarrow> int \<Rightarrow> error + tensor3" where
  "gaussian_heatmap dt gaussian_radius shape cls boxes hr wr
       gaussian_rad gaussian_iou max_num_instances num_objects =
     (case ct_blobs dt gaussian_radius cls boxes hr wr
             gaussian_rad gaussian_iou max_num_instances num_objects of
        Inl e \<Rightarrow> Inl e
      | Inr blobs \<Rightarrow> reduce_max (map (draw_gaussian shape) blobs))"

text \<open>Lines 189-197: the branch without the Gaussian, a scatter of ones.\<close>

definition ct_hm_update_indices ::
  "tf_dtype \<Rightarrow> real list \<Rightarrow> box list \<Rightarrow> real \<Rightarrow> real \<Rightarrow> error + (int \<times> int \<times> int) list" where
  "ct_hm_update_indices dt cls boxes hr wr =
     (case stack3 (map (scale_yct_floor dt hr) boxes)
             (map (scale_xct_floor dt wr) boxes) cls of
        Inl e \<Rightarrow> Inl e
      | Inr rows \<Rightarrow> Inr (map (\<lambda>(y, x, c). (cast_int32 y, cast_int32 x, cast_int32 c)) rows))"

definition scatter_heatmap ::
  "tf_dtype \<Rightarrow> tensor3 \<Rightarrow> real list \<Rightarrow> box list \<Rightarrow> real \<Rightarrow> real \<Rightarrow> int \<Rightarrow> error + tensor3" where
  "scatter_heatmap dt ct_heatmap cls boxes hr wr num_objects =
     (case ct_hm_update_indices dt cls boxes hr wr of
        Inl e \<Rightarrow> Inl e
      | Inr indices \<Rightarrow>
          tensor_scatter_nd_update3 ct_heatmap indices (replicate (nat num_objects) 1))"

subsection \<open>The builder\<close>

text \<open>
  Modelled from the spec: \<open>preprocess_ops.cartesian_product\<close> is not among the sources.
  Lines 199-203 reshape its result for \<open>range(num_objects)\<close> and \<open>range(2)\<close> to
  \<open>[num_objects, 2, 2]\<close>, the index pairs \<open>[[i, 0], [i, 1]]\<close> for every \<open>i < num_objects\<close>;
  section 4.4 of the specification: row \<open>i\<close> of an output receives the two values of
  instance \<open>i\<close>, in the order of the instances. With the two columns of a row kept as
  a pair, \<open>update_indices\<close> addresses the rows \<open>0, ..., num_objects - 1\<close> in this order.
\<close>

definition update_indices :: "int \<Rightarrow> nat list" where
  "update_indices num_objects = [0..<nat num_objects]"

definition build_heatmap_and_regressed_features ::
  "(real \<times> real \<Rightarrow> real \<Rightarrow> real) \<Rightarrow> labels \<Rightarrow> nat \<times> nat \<Rightarrow> nat \<times> nat \<Rightarrow> nat \<Rightarrow> nat \<Rightarrow>
   bool \<Rightarrow> int \<Rightarrow> real \<Rightarrow> int \<Rightarrow> string \<Rightarrow> error + targets" where
  "build_heatmap_and_regressed_features gaussian_radius lbls output_size input_size
       num_classes max_num_instances use_gaussian_bump gaussian_rad gaussian_iou
       class_offset dtype =
     (case parse_dtype dtype of
        Inl e \<Rightarrow> Inl e
      | Inr dt \<Rightarrow>
         (let num_objects = num_detections lbls;
              boxes = slice_to num_objects (map (cast_box dt) (bbox lbls));
              cls = slice_to num_objects (map (cast_class dt class_offset) (classes lbls));
              wr = width_ratio dt output_size input_size;
              hr = height_ratio dt output_size input_size
          in if output_h dt output_size < 0 \<or> output_w dt output_size < 0
             then Inl Invalid_argument
             else
              (let h = nat (output_h dt output_size);
                   w = nat (output_w dt output_size);
                   ct_heatmap = zeros3 h w num_classes;
                   ct_offset0 = replicate max_num_instances (0, 0);
                   size0 = replicate max_num_instances (0, 0);
                   box_mask0 = replicate max_num_instances 0;
                   box_indices0 = replicate max_num_instances (0, 0)
               in if num_objects > 0 then
                    (case (if use_gaussian_bump
                           then gaussian_heatmap dt gaussian_radius (h, w, num_classes)
                                  cls boxes hr wr gaussian_rad gaussian_iou
                                  max_num_instances num_objects
                           else scatter_heatmap dt ct_heatmap cls boxes hr wr
                                  num_objects) of
                       Inl e \<Rightarrow> Inl e
                     | Inr hm \<Rightarrow>
                        (case tensor_scatter_nd_update ct_offset0
                                (update_indices num_objects)
                                (map (ct_offset_values dt hr wr) boxes) of
                           Inl e \<Rightarrow> Inl e
                         | Inr off \<Rightarrow>
                            (case tensor_scatter_nd_update size0
                                    (update_indices num_objects)
                                    (map (box_heights_widths dt hr wr) boxes) of
                               Inl e \<Rightarrow> Inl e
                             | Inr sz \<Rightarrow>
                                (case tensor_scatter_nd_update box_mask0
                                        (update_indices num_objects)
                                        (replicate (nat num_objects) 1) of
                                   Inl e \<Rightarrow> Inl e
                                 | Inr msk \<Rightarrow>
                                    (case tensor_scatter_nd_update box_indices0
                                            (update_indices num_objects)
                                            (map (box_index_values dt hr wr) boxes) of
                                       Inl e \<Rightarrow> Inl e
                                     | Inr ind \<Rightarrow>
                                         Inr \<lparr>ct_heatmaps = hm, ct_offset = off,
                                              size_hw = sz, box_mask = msk,
                                              box_indices = ind\<rparr>)))))
                  else Inr \<lparr>ct_heatmaps = ct_heatmap, ct_offset = ct_offset0,
                            size_hw = size0, box_mask = box_mask0,
                            box_indices = box_indices0\<rparr>)))"

subsection \<open>Notions used in the statements\<close>

text \<open>
  The instances of a record: its first \<open>num_detections\<close> boxes, each with its class.
\<close>

definition instances :: "labels \<Rightarrow> (box \<times> int) list" where
  "instances lbls = take (nat (num_detections lbls)) (zip (bbox lbls) (classes lbls))"

text \<open>The radius that lines 165-174 give to an instance with the scaled size \<open>hw\<close>.\<close>

definition radius_of ::
  "(real \<times> real \<Rightarrow> real \<Rightarrow> real) \<Rightarrow> int \<Rightarrow> real \<Rightarrow> real \<times> real \<Rightarrow> real" where
  "radius_of gaussian_radius gaussian_rad gaussian_iou hw =
     (if gaussian_rad = - 1 then
        max (real_of_int \<lfloor>gaussian_radius
               (real_of_int \<lceil>fst hw\<rceil>, real_of_int \<lceil>snd hw\<rceil>) gaussian_iou\<rfloor>) 1
      else real_of_int gaussian_rad)"

text \<open>
  The blob and the heatmap cell \<open>(row, col, class)\<close> of one instance, a box of the record
  with its class: both are cast to the kind first.
\<close>

definition blob_of ::
  "tf_dtype \<Rightarrow> (real \<times> real \<Rightarrow> real \<Rightarrow> real) \<Rightarrow> real \<Rightarrow> real \<Rightarrow> int \<Rightarrow> real \<Rightarrow> int \<Rightarrow>
   box \<times> int \<Rightarrow> real \<times> real \<times> real \<times> real" where
  "blob_of dt gaussian_radius hr wr gaussian_rad gaussian_iou class_offset inst =
     (cast_class dt class_offset (snd inst),
      scale_yct_floor dt hr (cast_box dt (fst inst)),
      scale_xct_floor dt wr (cast_box dt (fst inst)),
      rnd dt (radius_of gaussian_radius gaussian_rad gaussian_iou
                (box_heights_widths dt hr wr (cast_box dt (fst inst)))))"

definition hm_index ::
  "tf_dtype \<Rightarrow> real \<Rightarrow> real \<Rightarrow> int \<Rightarrow> box \<times> int \<Rightarrow> int \<times> int \<times> int" where
  "hm_index dt hr wr class_offset inst =
     (cast_int32 (scale_yct_floor dt hr (cast_box dt (fst inst))),
      cast_int32 (scale_xct_floor dt wr (cast_box dt (fst inst))),
      cast_int32 (cast_class dt class_offset (snd inst)))"

definition in_grid :: "nat \<times> nat \<Rightarrow> nat \<Rightarrow> int \<times> int \<times> int \<Rightarrow> bool" where
  "in_grid grid_size num_classes idx =
     (case idx of (y, x, c) \<Rightarrow>
        0 \<le> y \<and> y < int (fst grid_size) \<and>
        0 \<le> x \<and> x < int (snd grid_size) \<and>
        0 \<le> c \<and> c < int num_classes)"

text \<open>The height and the width of the heatmap that line 147 allocates.\<close>

definition heatmap_size :: "tf_dtype \<Rightarrow> nat \<times> nat \<Rightarrow> nat \<times> nat" where
  "heatmap_size dt output_size = (nat (output_h dt output_size), nat (output_w dt output_size))"

text \<open>
  The calls on which the builder returns: an accepted \<open>dtype\<close>, an output size that
  \<open>int32\<close> holds, and, when there are instances, \<open>num_detections\<close> of them in the record
  and in the capacity of the outputs; without the Gaussian, every instance's heatmap
  cell is on the grid of the heatmap.
\<close>

definition valid_call ::
  "labels \<Rightarrow> nat \<times> nat \<Rightarrow> nat \<times> nat \<Rightarrow> nat \<Rightarrow> nat \<Rightarrow> bool \<Rightarrow> int \<Rightarrow> string \<Rightarrow> bool" where
  "valid_call lbls output_size input_size num_classes max_num_instances use_gaussian_bump
       class_offset dtype =
     (case parse_dtype dtype of
        Inl e \<Rightarrow> False
      | Inr dt \<Rightarrow>
          0 \<le> output_h dt output_size \<and> 0 \<le> output_w dt output_size \<and>
          (0 < num_detections lbls \<longrightarrow>
             nat (num_detections lbls) \<le> length (bbox lbls) \<and>
             nat (num_detections lbls) \<le> length (classes lbls) \<and>
             nat (num_detections lbls) \<le> max_num_instances \<and>
             (\<not> use_gaussian_bump \<longrightarrow>
                list_all (in_grid (heatmap_size dt output_size) num_classes)
                  (map (hm_index dt (height_ratio dt output_size input_size)
                          (width_ratio dt output_size input_size) class_offset)
                     (instances lbls)))))"

text \<open>
  The tensor of shape \<open>[h, w, n]\<close> given by a function of the \<open>int32\<close> index triples
  that the scatter uses.
\<close>

definition tab :: "nat \<Rightarrow> nat \<Rightarrow> nat \<Rightarrow> (int \<times> int \<times> int \<Rightarrow> real) \<Rightarrow> tensor3" where
  "tab h w n g = tabulate3 h w n (\<lambda>i j c. g (int i, int j, int c))"

text \<open>
  An instance contributes to the heatmap cell \<open>(i, j, c)\<close>: with the Gaussian, the cell is
  in the window of the instance's blob; without it, the cell is the instance's own.
\<close>

definition covered ::
  "tf_dtype \<Rightarrow> (real \<times> real \<Rightarrow> real \<Rightarrow> real) \<Rightarrow> labels \<Rightarrow> nat \<times> nat \<Rightarrow> nat \<times> nat \<Rightarrow> bool \<Rightarrow>
   int \<Rightarrow> real \<Rightarrow> int \<Rightarrow> nat \<Rightarrow> nat \<Rightarrow> nat \<Rightarrow> bool" where
  "covered dt gaussian_radius lbls output_size input_size use_gaussian_bump gaussian_rad
       gaussian_iou class_offset i j c =
     (0 < num_detections lbls \<and>
      (if use_gaussian_bump then
         list_ex (\<lambda>inst. in_window
                    (blob_of dt gaussian_radius (height_ratio dt output_size input_size)
                       (width_ratio dt output_size input_size) gaussian_rad gaussian_iou
                       class_offset inst) i j c)
           (instances lbls)
       else
         (int i, int j, int c) \<in>
           set (map (hm_index dt (height_ratio dt output_size input_size)
                       (width_ratio dt output_size input_size) class_offset)
                  (instances lbls))))"

text \<open>The rows of the per-instance arrays that belong to the first \<open>n\<close> instances.\<close>

definition instance_rows ::
  "nat \<Rightarrow> targets \<Rightarrow> ((real \<times> real) \<times> (real \<times> real) \<times> int \<times> (int \<times> int)) list" where
  "instance_rows n out =
     take n (zip (ct_offset out) (zip (size_hw out) (zip (box_mask out) (box_indices out))))"

text \<open>
  The record of the module's own run (lines 242-271): three boxes of class \<open>1\<close>, padded
  to 128 instances with zero boxes and the class \<open>-1\<close>; it is built with the output size
  \<open>[128, 128]\<close>, the input size \<open>[512, 512]\<close> and the default arguments.
\<close>

definition fixture_labels :: labels where
  "fixture_labels =
     \<lparr>bbox = [(10, 300, 15, 370), (100, 300, 150, 370), (15, 100, 200, 170)] @
              replicate 125 (0, 0, 0, 0),
      classes = [1, 1, 1] @ replicate 125 (- 1),
      num_detections = 3\<rparr>"

text \<open>A stand-in for \<open>gaussian_radius\<close> in the concrete examples.\<close>

definition unit_radius :: "real \<times> real \<Rightarrow> real \<Rightarrow> real" where
  "unit_radius det_size min_overlap = 1"

section \<open>Auxiliary facts\<close>

subsection \<open>Rounding\<close>

lemma round_half_even_of_int [simp]: "round_half_even (real_of_int k) = k"
  by (simp add: round_half_even_def)

lemma floor_log2_eq:
  assumes "2 powi e \<le> x" "x < 2 powi (e + 1)"
  shows "\<lfloor>log 2 x\<rfloor> = e"
proof -
  have pos: "0 < x" using assms(1) by (smt (verit) zero_less_power_int)
  have p: "2 powi k = 2 powr real_of_int k" for k :: int
    by (simp add: powr_real_of_int')
  have "real_of_int e \<le> log 2 x"
    using assms(1) pos by (simp add: p le_log_iff)
  moreover have "log 2 x < real_of_int (e + 1)"
    using assms(2) pos by (simp add: p log_less_iff)
  ultimately show ?thesis by (simp add: floor_eq_iff)
qed

lemma floor_log2_bounds:
  assumes "0 < x"
  shows "2 powi \<lfloor>log 2 x\<rfloor> \<le> x" and "x < 2 powi (\<lfloor>log 2 x\<rfloor> + 1)"
proof -
  have p: "2 powi k = 2 powr real_of_int k" for k :: int
    by (simp add: powr_real_of_int')
  have "real_of_int \<lfloor>log 2 x\<rfloor> \<le> log 2 x" by simp
  then show "2 powi \<lfloor>log 2 x\<rfloor> \<le> x"
    unfolding p using assms le_log_iff [of 2 x "real_of_int \<lfloor>log 2 x\<rfloor>"] by simp
  have "log 2 x < real_of_int (\<lfloor>log 2 x\<rfloor> + 1)" by linarith
  then show "x < 2 powi (\<lfloor>log 2 x\<rfloor> + 1)"
    unfolding p using assms log_less_iff [of 2 x "real_of_int (\<lfloor>log 2 x\<rfloor> + 1)"] by simp
qed


lemma rnd_eval:
  assumes "2 powi e \<le> \<bar>x\<bar>" "\<bar>x\<bar> < 2 powi (e + 1)"
  shows "rnd dt x =
         2 powi (max e (emin dt) - int (precision dt) + 1) *
         real_of_int (round_half_even
           (x / 2 powi (max e (emin dt) - int (precision dt) + 1)))"
proof -
  have "(0::real) < 2 powi e" by simp
  with assms(1) have "0 < \<bar>x\<bar>" by linarith
  then have nz: "x \<noteq> 0" by simp
  have "\<lfloor>log 2 \<bar>x\<bar>\<rfloor> = e" by (rule floor_log2_eq [OF assms])
  with nz show ?thesis by (simp add: rnd_def ulp_exponent_def)
qed

lemma ulp_exponent_le:
  assumes x: "x = real_of_int m * 2 powi e" and m: "\<bar>m\<bar> < 2 ^ precision dt"
    and e: "emin dt - int (precision dt) + 1 \<le> e" and nz: "x \<noteq> 0"
  shows "ulp_exponent dt x \<le> e"
proof -
  let ?E = "\<lfloor>log 2 \<bar>x\<bar>\<rfloor>"
  have pos: "0 < \<bar>x\<bar>" using nz by simp
  have "\<bar>x\<bar> = real_of_int \<bar>m\<bar> * 2 powi e"
    by (simp add: x abs_mult)
  also have "\<dots> < 2 ^ precision dt * 2 powi e"
  proof -
    have "real_of_int \<bar>m\<bar> < real_of_int (2 ^ precision dt)"
      using m by (simp only: of_int_less_iff)
    then show ?thesis by simp
  qed
  also have "\<dots> = 2 powi (int (precision dt) + e)"
    by (simp add: power_int_add)
  finally have up: "\<bar>x\<bar> < 2 powi (int (precision dt) + e)" .
  have "(2::real) powi ?E \<le> \<bar>x\<bar>" by (rule floor_log2_bounds(1) [OF pos])
  with up have "(2::real) powi ?E < 2 powi (int (precision dt) + e)" by linarith
  then have "?E < int (precision dt) + e"
    using power_int_increasing [of "int (precision dt) + e" ?E "2::real"] by force
  with e show ?thesis by (simp add: ulp_exponent_def)
qed

lemma rnd_exact:
  assumes "representable dt x"
  shows "rnd dt x = x"
proof (cases "x = 0")
  case True
  then show ?thesis by (simp add: rnd_def)
next
  case False
  from assms obtain m e where x: "x = real_of_int m * 2 powi e"
    and m: "\<bar>m\<bar> < 2 ^ precision dt" and e: "emin dt - int (precision dt) + 1 \<le> e"
    by (auto simp: representable_def)
  let ?q = "ulp_exponent dt x"
  have q: "?q \<le> e" by (rule ulp_exponent_le [OF x m e False])
  have "x / 2 powi ?q = real_of_int m * 2 powi (e - ?q)"
    by (simp add: x power_int_diff)
  also have "\<dots> = real_of_int (m * 2 ^ nat (e - ?q))"
    using q by (simp add: power_int_def)
  finally have i: "x / 2 powi ?q = real_of_int (m * 2 ^ nat (e - ?q))" .
  have "rnd dt x = 2 powi ?q * (x / 2 powi ?q)"
    using False unfolding rnd_def i round_half_even_of_int by simp
  then show ?thesis by simp
qed

lemma round_half_even_bounds:
  "\<lfloor>y\<rfloor> \<le> round_half_even y" "round_half_even y \<le> \<lfloor>y\<rfloor> + 1"
  by (simp_all add: round_half_even_def Let_def)

lemma round_half_even_abs_le:
  assumes "\<bar>y\<bar> < real_of_int n"
  shows "\<bar>round_half_even y\<bar> \<le> n"
proof -
  from assms have "y < real_of_int n" "- real_of_int n < y" by linarith+
  then have "\<lfloor>y\<rfloor> < n" "- n \<le> \<lfloor>y\<rfloor>"
    by (simp_all add: floor_less_iff le_floor_iff)
  with round_half_even_bounds [of y] show ?thesis by linarith
qed

lemma representable_rnd: "representable dt (rnd dt x)"
proof (cases "x = 0")
  case True
  have "rnd dt x = real_of_int 0 * 2 powi (emin dt - int (precision dt) + 1)"
    by (simp add: True rnd_def)
  then show ?thesis
    unfolding representable_def
    by (intro exI [of _ 0] exI [of _ "emin dt - int (precision dt) + 1"]) simp
next
  case False
  let ?p = "precision dt"
  let ?E = "\<lfloor>log 2 \<bar>x\<bar>\<rfloor>"
  let ?q = "ulp_exponent dt x"
  let ?k = "round_half_even (x / 2 powi ?q)"
  have pos: "0 < \<bar>x\<bar>" using False by simp
  have r: "rnd dt x = 2 powi ?q * real_of_int ?k"
    using False by (simp add: rnd_def)
  have qlow: "emin dt - int ?p + 1 \<le> ?q" and qE: "?E + 1 - int ?p \<le> ?q"
    by (simp_all add: ulp_exponent_def)
  have "\<bar>x\<bar> < 2 powi (?E + 1)" by (rule floor_log2_bounds(2) [OF pos])
  also have "\<dots> \<le> 2 powi (?q + int ?p)"
    using qE by (intro power_int_increasing) simp_all
  finally have "\<bar>x\<bar> < 2 powi ?q * 2 ^ ?p"
    by (simp add: power_int_add)
  then have "\<bar>x / 2 powi ?q\<bar> < 2 ^ ?p"
    by (simp add: abs_divide pos_divide_less_eq mult.commute)
  then have "\<bar>x / 2 powi ?q\<bar> < real_of_int (2 ^ ?p)" by simp
  then have k: "\<bar>?k\<bar> \<le> 2 ^ ?p" by (rule round_half_even_abs_le)
  show ?thesis
  proof (cases "\<bar>?k\<bar> < 2 ^ ?p")
    case True
    with r qlow show ?thesis
      unfolding representable_def
      by (intro exI [of _ ?k] exI [of _ ?q]) (simp add: mult.commute)
  next
    case False
    with k have "\<bar>?k\<bar> = 2 ^ ?p" by simp
    then consider "?k = 2 ^ ?p" | "?k = - (2 ^ ?p)" by linarith
    then show ?thesis
    proof cases
      case 1
      have "rnd dt x = real_of_int 1 * 2 powi (?q + int ?p)"
        unfolding r 1 by (simp add: power_int_add)
      moreover have "\<bar>1::int\<bar> < 2 ^ ?p" by (cases dt) simp_all
      ultimately show ?thesis
        unfolding representable_def using qlow
        by (intro exI [of _ 1] exI [of _ "?q + int ?p"]) simp
    next
      case 2
      have "rnd dt x = real_of_int (- 1) * 2 powi (?q + int ?p)"
        unfolding r 2 by (simp add: power_int_add)
      moreover have "\<bar>- 1::int\<bar> < 2 ^ ?p" by (cases dt) simp_all
      ultimately show ?thesis
        unfolding representable_def using qlow
        by (intro exI [of _ "- 1"] exI [of _ "?q + int ?p"]) simp
    qed
  qed
qed

lemma power_int_neg:
  fixes e :: int
  assumes "\<not> 0 \<le> e"
  shows "(2::real) powi e = 1 / real_of_int (2 ^ nat (- e))"
proof -
  from assms have "e < 0" by simp
  then have "(2::real) powi e = (1 / 2) ^ nat (- e)"
    by (simp add: power_int_def)
  also have "\<dots> = 1 / 2 ^ nat (- e)" by (simp only: power_one_over)
  finally show ?thesis by simp
qed

lemma representable_frac:
  assumes r: "representable dt x" and nn: "0 \<le> x"
  shows "representable dt (x - real_of_int \<lfloor>x\<rfloor>)"
proof -
  from r obtain m e where x: "x = real_of_int m * 2 powi e"
    and m: "\<bar>m\<bar> < 2 ^ precision dt" and e: "emin dt - int (precision dt) + 1 \<le> e"
    by (auto simp: representable_def)
  have m0: "0 \<le> m"
  proof -
    have nn': "0 \<le> real_of_int m * 2 powi e" using nn x by simp
    have "0 \<le> real_of_int m"
    proof (rule ccontr)
      assume "\<not> 0 \<le> real_of_int m"
      then have "real_of_int m * 2 powi e < 0"
        by (intro mult_neg_pos) simp_all
      with nn' show False by simp
    qed
    then show ?thesis by simp
  qed
  show ?thesis
  proof (cases "0 \<le> e")
    case True
    then have "x = real_of_int (m * 2 ^ nat e)"
      by (simp add: x power_int_def)
    then have "x - real_of_int \<lfloor>x\<rfloor> = 0" by simp
    moreover have "(0::real) = real_of_int 0 * 2 powi e" by simp
    ultimately show ?thesis
      unfolding representable_def using e
      by (intro exI [of _ 0] exI [of _ e]) simp
  next
    case False
    define k where "k = nat (- e)"
    define d :: int where "d = 2 ^ k"
    define a where "a = real_of_int (m div d)"
    define b where "b = real_of_int (m mod d)"
    define D where "D = real_of_int d"
    have Dpos: "0 < D" by (simp add: D_def d_def)
    have pk: "(2::real) powi e = 1 / D"
      using power_int_neg [OF False] by (simp add: k_def D_def d_def)
    have xk: "x = real_of_int m / real_of_int d"
      by (simp add: x pk D_def)
    have fl: "\<lfloor>x\<rfloor> = m div d"
      unfolding xk by (rule floor_divide_of_int_eq)
    have "m = m div d * d + m mod d" by simp
    then have "real_of_int m = real_of_int (m div d * d + m mod d)" by (rule arg_cong)
    then have md: "real_of_int m = a * D + b"
      by (simp only: a_def b_def D_def of_int_add of_int_mult)
    have "x - real_of_int \<lfloor>x\<rfloor> = x - a"
      by (simp only: fl a_def)
    also have "\<dots> = real_of_int m / D - a"
      by (simp only: xk D_def)
    also have "\<dots> = (a * D + b) / D - a"
      by (simp only: md)
    also have "\<dots> = b * (1 / D)"
      using Dpos by (simp add: field_simps)
    finally have eq: "x - real_of_int \<lfloor>x\<rfloor> = real_of_int (m mod 2 ^ k) * 2 powi e"
      by (simp only: pk b_def d_def)
    have "0 \<le> m mod 2 ^ k" by simp
    moreover have "m mod 2 ^ k \<le> m" using m0 by (simp add: zmod_le_nonneg_dividend)
    ultimately have "\<bar>m mod 2 ^ k\<bar> < 2 ^ precision dt" using m m0 by linarith
    with eq e show ?thesis
      unfolding representable_def
      by (intro exI [of _ "m mod 2 ^ k"] exI [of _ e]) simp
  qed
qed


lemma rnd_0 [simp]: "rnd dt 0 = 0"
  by (simp add: rnd_def)

lemma representable_dyadic:
  assumes "\<bar>m\<bar> < 2 ^ precision dt" "emin dt - int (precision dt) + 1 \<le> - int k"
  shows "representable dt (real_of_int m / 2 ^ k)"
proof -
  have "real_of_int m / 2 ^ k = real_of_int m * 2 powi (- int k)"
    by (simp add: power_int_minus divide_inverse)
  with assms show ?thesis
    unfolding representable_def by blast
qed

lemma rnd_dyadic:
  assumes "\<bar>m\<bar> < 2 ^ precision dt" "emin dt - int (precision dt) + 1 \<le> - int k"
  shows "rnd dt (real_of_int m / 2 ^ k) = real_of_int m / 2 ^ k"
  by (rule rnd_exact [OF representable_dyadic [OF assms]])

lemma rnd_of_int:
  assumes "\<bar>m\<bar> < 2 ^ precision dt"
  shows "rnd dt (real_of_int m) = real_of_int m"
  using rnd_dyadic [OF assms, of 0] by (cases dt) simp_all

lemma rnd_numeral:
  "(numeral n :: int) < 2 ^ precision dt \<Longrightarrow> rnd dt (numeral n) = numeral n"
  using rnd_of_int [of "numeral n" dt] by simp

lemma rnd_1 [simp]: "rnd dt 1 = 1"
  using rnd_of_int [of 1 dt] by (cases dt) simp_all

lemma cast_int32_of_int:
  "- (2 ^ 31) \<le> k \<Longrightarrow> k < 2 ^ 31 \<Longrightarrow> cast_int32 (real_of_int k) = k"
  by (simp add: cast_int32_def)

lemma cast_int32_numeral:
  "(numeral n :: int) < 2 ^ 31 \<Longrightarrow> cast_int32 (numeral n) = numeral n"
  using cast_int32_of_int [of "numeral n"] by simp

lemma cast_int32_0 [simp]: "cast_int32 0 = 0"
  by (simp add: cast_int32_def)

lemma cast_int32_1 [simp]: "cast_int32 1 = 1"
  by (simp add: cast_int32_def)

subsection \<open>Lists and tensors\<close>

lemma fold_update_upt:
  "m + length vs \<le> length t \<Longrightarrow>
   fold (\<lambda>(i, v) t. t[i := v]) (zip [m..<m + length vs] vs) t =
   take m t @ vs @ drop (m + length vs) t"
proof (induction vs arbitrary: m t)
  case Nil
  then show ?case by simp
next
  case (Cons v vs)
  have upt: "[m..<m + length (v # vs)] = m # [Suc m..<Suc m + length vs]"
    by (subst upt_rec) simp
  have len: "Suc m + length vs \<le> length (t[m := v])"
    using Cons.prems by simp
  have m: "m < length t" using Cons.prems by simp
  show ?case
    unfolding upt using Cons.IH [OF len] m
    by (simp add: take_Suc_conv_app_nth)
qed

lemma list_all_upt_less: "list_all (\<lambda>i. i < n) [0..<k] \<longleftrightarrow> k \<le> n"
  by (auto simp: list_all_iff)

lemma scatter_rows_iff:
  "tensor_scatter_nd_update t [0..<k] vs = Inr r \<longleftrightarrow>
   length vs = k \<and> k \<le> length t \<and> r = vs @ drop k t"
proof (cases "length vs = k \<and> k \<le> length t")
  case True
  then have "fold (\<lambda>(i, v) t. t[i := v]) (zip [0..<k] vs) t = vs @ drop k t"
    using fold_update_upt [of 0 vs t] by simp
  with True show ?thesis
    by (auto simp: tensor_scatter_nd_update_def list_all_upt_less)
next
  case False
  then show ?thesis
    by (auto simp: tensor_scatter_nd_update_def list_all_upt_less)
qed

lemma cell_tabulate3:
  "i < h \<Longrightarrow> j < w \<Longrightarrow> c < n \<Longrightarrow> cell (tabulate3 h w n f) i j c = f i j c"
  by (simp add: cell_def tabulate3_def)

lemma tabulate3_cong:
  "(\<And>i j c. i < h \<Longrightarrow> j < w \<Longrightarrow> c < n \<Longrightarrow> f i j c = g i j c) \<Longrightarrow>
   tabulate3 h w n f = tabulate3 h w n g"
  by (simp add: tabulate3_def)

lemma zeros3_tabulate3: "zeros3 h w n = tabulate3 h w n (\<lambda>i j c. 0)"
  by (simp add: zeros3_def tabulate3_def map_replicate_const)

lemma tensor_max_tabulate3:
  "tensor_max (tabulate3 h w n f) (tabulate3 h w n g) =
   tabulate3 h w n (\<lambda>i j c. max (f i j c) (g i j c))"
  by (simp add: tensor_max_def tabulate3_def map2_map_map)

lemma fold_tensor_max_tabulate3:
  "fold tensor_max (map (\<lambda>b. tabulate3 h w n (F b)) bs) (tabulate3 h w n f0) =
   tabulate3 h w n (\<lambda>i j c. fold max (map (\<lambda>b. F b i j c) bs) (f0 i j c))"
proof (induction bs arbitrary: f0)
  case Nil
  then show ?case by simp
next
  case (Cons b bs)
  show ?case
    by (simp add: tensor_max_tabulate3 Cons.IH)
qed

lemma length_tabulate3 [simp]: "length (tabulate3 h w n f) = h"
  by (simp add: tabulate3_def)

lemma in_bounds3_tabulate3:
  "in_bounds3 (tabulate3 h w n f) (y, x, c) \<longleftrightarrow>
   0 \<le> y \<and> y < int h \<and> 0 \<le> x \<and> x < int w \<and> 0 \<le> c \<and> c < int n"
  by (auto simp: in_bounds3_def tabulate3_def)



lemma update3_tab:
  assumes "in_bounds3 (tab h w n g) idx"
  shows "update3 (tab h w n g) idx v = tab h w n (\<lambda>x. if x = idx then v else g x)"
proof -
  obtain y x c where idx: "idx = (y, x, c)" by (cases idx)
  from assms have b: "0 \<le> y" "nat y < h" "0 \<le> x" "nat x < w" "0 \<le> c" "nat c < n"
    by (auto simp: idx tab_def in_bounds3_tabulate3)
  show ?thesis
    using b unfolding idx tab_def update3_def tabulate3_def
    by (auto simp: list_eq_iff_nth_eq nth_list_update)
qed

lemma in_bounds3_tab_upd:
  "in_bounds3 (tab h w n g) idx \<longleftrightarrow> in_bounds3 (tab h w n g') idx"
  by (cases idx) (simp add: tab_def in_bounds3_tabulate3)

lemma fold_update3_tab:
  "list_all (in_bounds3 (tab h w n g)) (map fst ivs) \<Longrightarrow>
   fold (\<lambda>(idx, v) t. update3 t idx v) ivs (tab h w n g) =
   tab h w n (fold (\<lambda>(idx, v) g x. if x = idx then v else g x) ivs g)"
proof (induction ivs arbitrary: g)
  case Nil
  then show ?case by simp
next
  case (Cons iv ivs)
  obtain idx v where iv: "iv = (idx, v)" by (cases iv)
  from Cons.prems have here: "in_bounds3 (tab h w n g) idx"
    and rest: "list_all (in_bounds3 (tab h w n g)) (map fst ivs)"
    by (simp_all add: iv)
  from rest have rest': "list_all (in_bounds3 (tab h w n (\<lambda>x. if x = idx then v else g x))) (map fst ivs)"
    using in_bounds3_tab_upd [of h w n g _ "\<lambda>x. if x = idx then v else g x"] by (simp add: list_all_iff)
  show ?case
    by (simp add: iv update3_tab [OF here] Cons.IH [OF rest'])
qed

lemma fold_fun_upd_const:
  "fold (\<lambda>(idx, v) g x. if x = idx then v else g x) (zip idxs (replicate (length idxs) c)) g =
   (\<lambda>x. if x \<in> set idxs then c else g x)"
proof (induction idxs arbitrary: g)
  case Nil
  then show ?case by simp
next
  case (Cons i idxs)
  have "fold (\<lambda>(idx, v) g x. if x = idx then v else g x) (zip idxs (replicate (length idxs) c)) (\<lambda>x. if x = i then c else g x) =
        (\<lambda>x. if x \<in> set idxs then c else (if x = i then c else g x))"
    by (rule Cons.IH)
  also have "\<dots> = (\<lambda>x. if x \<in> set (i # idxs) then c else g x)"
    by (rule ext) simp
  finally show ?case by simp
qed

lemma fold_fun_upd_notin:
  "x \<notin> set idxs \<Longrightarrow> fold (\<lambda>(idx, v) g x. if x = idx then v else g x) (zip idxs ws) f x = f x"
proof (induction idxs arbitrary: ws f)
  case Nil
  then show ?case by simp
next
  case (Cons i idxs)
  show ?case
  proof (cases ws)
    case Nil
    then show ?thesis by simp
  next
    case (Cons w ws')
    have "fold (\<lambda>(idx, v) g x. if x = idx then v else g x) (zip idxs ws') (\<lambda>y. if y = i then w else f y) x = (\<lambda>y. if y = i then w else f y) x"
      using Cons.prems by (intro Cons.IH) simp
    then show ?thesis using Cons.prems by (simp add: Cons)
  qed
qed

lemma zeros3_tab: "zeros3 h w n = tab h w n (\<lambda>x. 0)"
  by (simp add: tab_def zeros3_tabulate3)

lemma cell_tab:
  "i < h \<Longrightarrow> j < w \<Longrightarrow> c < n \<Longrightarrow> cell (tab h w n g) i j c = g (int i, int j, int c)"
  by (simp add: tab_def cell_tabulate3)

lemma fold_max_Max:
  "fold max (map F bs) (F b) = Max (F ` set (b # bs))"
  for F :: "'a \<Rightarrow> real"
  using Max.set_eq_fold [of "F b" "map F bs"] by simp

lemma draw_gaussian_tabulate3:
  "draw_gaussian (h, w, n) = (\<lambda>b. tabulate3 h w n (gaussian_value b))"
  by (rule ext) (simp add: draw_gaussian_def)

lemma reduce_max_draw_gaussian:
  assumes "bs \<noteq> []"
  shows "reduce_max (map (draw_gaussian (h, w, n)) bs) =
     Inr (tabulate3 h w n (\<lambda>i j c. Max ((\<lambda>b. gaussian_value b i j c) ` set bs)))"
proof -
  from assms obtain b bs' where bs: "bs = b # bs'" by (cases bs) auto
  have "fold tensor_max (map (\<lambda>b. tabulate3 h w n (gaussian_value b)) bs')
          (tabulate3 h w n (gaussian_value b)) =
        tabulate3 h w n (\<lambda>i j c. fold max (map (\<lambda>b. gaussian_value b i j c) bs')
          (gaussian_value b i j c))"
    by (rule fold_tensor_max_tabulate3)
  moreover have "(\<lambda>i j c. fold max (map (\<lambda>b. gaussian_value b i j c) bs')
          (gaussian_value b i j c)) =
        (\<lambda>i j c. Max ((\<lambda>b. gaussian_value b i j c) ` set (b # bs')))"
    by (intro ext) (rule fold_max_Max [of "\<lambda>b. gaussian_value b _ _ _"])
  ultimately show ?thesis
    unfolding bs draw_gaussian_tabulate3
    by (simp only: list.map reduce_max.simps)
qed

subsection \<open>Blobs and heatmaps\<close>

lemma scatter_rows:
  "length vs = k \<Longrightarrow> k \<le> length t \<Longrightarrow>
   tensor_scatter_nd_update t (update_indices (int k)) vs = Inr (vs @ drop k t)"
  by (simp add: update_indices_def scatter_rows_iff)

lemma slice_to_pos: "0 \<le> n \<Longrightarrow> slice_to n xs = take (nat n) xs"
  by (simp add: slice_to_def)

lemma radius_eq:
  "length boxes = nat n \<Longrightarrow> nat n \<le> m \<Longrightarrow> 0 \<le> n \<Longrightarrow>
   radius gr grad giou m n (map (box_heights_widths dt hr wr) boxes) =
   map (\<lambda>b. radius_of gr grad giou (box_heights_widths dt hr wr b)) boxes"
  by (auto simp: radius_def radius_of_def slice_to_pos list_eq_iff_nth_eq)

lemma ct_blobs_eq:
  assumes "length boxes = nat n" "length cs = nat n" "nat n \<le> m" "0 \<le> n"
  shows "ct_blobs dt gr (map (cast_class dt coff) cs) (map (cast_box dt) boxes) hr wr
           grad giou m n =
         Inr (map (blob_of dt gr hr wr grad giou coff) (zip boxes cs))"
proof -
  have r: "radius gr grad giou m n
             (map (box_heights_widths dt hr wr) (map (cast_box dt) boxes)) =
           map (\<lambda>b. radius_of gr grad giou (box_heights_widths dt hr wr b))
             (map (cast_box dt) boxes)"
    by (rule radius_eq) (use assms in simp_all)
  show ?thesis
    unfolding ct_blobs_def r using assms(1,2)
    by (simp add: stack4_def blob_of_def list_eq_iff_nth_eq)
qed

lemma ct_hm_update_indices_eq:
  assumes "length boxes = length cs"
  shows "ct_hm_update_indices dt (map (cast_class dt coff) cs) (map (cast_box dt) boxes)
           hr wr =
         Inr (map (hm_index dt hr wr coff) (zip boxes cs))"
  using assms
  by (simp add: ct_hm_update_indices_def stack3_def hm_index_def list_eq_iff_nth_eq)

lemma in_bounds3_tab: "in_bounds3 (tab h w n g) idx \<longleftrightarrow> in_grid (h, w) n idx"
  by (cases idx) (simp add: tab_def in_bounds3_tabulate3 in_grid_def)

lemma scatter3_zeros:
  assumes "length vs = length idxs" "list_all (in_grid (h, w) n) idxs"
  shows "tensor_scatter_nd_update3 (zeros3 h w n) idxs vs =
         Inr (tab h w n (fold (\<lambda>(idx, v) g x. if x = idx then v else g x) (zip idxs vs) (\<lambda>x. 0)))"
proof -
  have all: "list_all (in_bounds3 (tab h w n (\<lambda>x. 0))) idxs"
    using assms(2) by (simp add: list_all_iff in_bounds3_tab)
  then have "list_all (in_bounds3 (tab h w n (\<lambda>x. 0))) (map fst (zip idxs vs))"
    using assms(1) by simp
  from fold_update3_tab [OF this] all assms(1) show ?thesis
    by (simp add: tensor_scatter_nd_update3_def zeros3_tab)
qed

lemma scatter3_zeros_error:
  assumes "\<not> list_all (in_grid (h, w) n) idxs"
  shows "tensor_scatter_nd_update3 (zeros3 h w n) idxs vs = Inl Invalid_argument"
  using assms by (simp add: tensor_scatter_nd_update3_def zeros3_tab list_all_iff in_bounds3_tab)

lemma scatter_heatmap_eq:
  assumes "length boxes = nat k" "length cs = nat k"
    and "list_all (in_grid (h, w) n) (map (hm_index dt hr wr coff) (zip boxes cs))"
  shows "scatter_heatmap dt (zeros3 h w n) (map (cast_class dt coff) cs)
           (map (cast_box dt) boxes) hr wr k =
         Inr (tabulate3 h w n (\<lambda>i j c.
           if (int i, int j, int c) \<in> set (map (hm_index dt hr wr coff) (zip boxes cs))
           then 1 else 0))"
proof -
  let ?idxs = "map (hm_index dt hr wr coff) (zip boxes cs)"
  have len: "nat k = length ?idxs" using assms by simp
  have idx: "ct_hm_update_indices dt (map (cast_class dt coff) cs) (map (cast_box dt) boxes)
               hr wr = Inr ?idxs"
    using assms by (intro ct_hm_update_indices_eq) simp
  have "tensor_scatter_nd_update3 (zeros3 h w n) ?idxs (replicate (length ?idxs) 1) =
        Inr (tab h w n (fold (\<lambda>(idx, v) g x. if x = idx then v else g x)
              (zip ?idxs (replicate (length ?idxs) 1)) (\<lambda>x. 0)))"
    by (rule scatter3_zeros) (use assms in simp_all)
  also have "\<dots> = Inr (tabulate3 h w n (\<lambda>i j c.
           if (int i, int j, int c) \<in> set ?idxs then 1 else 0))"
    unfolding fold_fun_upd_const tab_def by (rule refl)
  finally show ?thesis
    unfolding scatter_heatmap_def idx len by (simp only: sum.case)
qed

lemma scatter_heatmap_error:
  assumes "length boxes = length cs"
    and "\<not> list_all (in_grid (h, w) n) (map (hm_index dt hr wr coff) (zip boxes cs))"
  shows "scatter_heatmap dt (zeros3 h w n) (map (cast_class dt coff) cs)
           (map (cast_box dt) boxes) hr wr k =
         Inl Invalid_argument"
proof -
  let ?idxs = "map (hm_index dt hr wr coff) (zip boxes cs)"
  have idx: "ct_hm_update_indices dt (map (cast_class dt coff) cs) (map (cast_box dt) boxes)
               hr wr = Inr ?idxs"
    using assms by (intro ct_hm_update_indices_eq) simp
  show ?thesis
    unfolding scatter_heatmap_def idx
    by (simp only: sum.case scatter3_zeros_error [OF assms(2)])
qed

lemma gaussian_heatmap_eq:
  assumes "length boxes = nat k" "length cs = nat k" "nat k \<le> m" "0 < k"
  shows "gaussian_heatmap dt gr (h, w, n) (map (cast_class dt coff) cs)
           (map (cast_box dt) boxes) hr wr grad giou m k =
         Inr (tabulate3 h w n (\<lambda>i j c.
           Max ((\<lambda>inst. gaussian_value (blob_of dt gr hr wr grad giou coff inst) i j c) `
                  set (zip boxes cs))))"
proof -
  let ?blobs = "map (blob_of dt gr hr wr grad giou coff) (zip boxes cs)"
  have ne: "?blobs \<noteq> []" using assms by (auto simp: zip_eq_Nil_iff)
  have blobs: "ct_blobs dt gr (map (cast_class dt coff) cs) (map (cast_box dt) boxes) hr wr
                 grad giou m k = Inr ?blobs"
    using assms by (intro ct_blobs_eq) simp_all
  have img: "(\<lambda>b. gaussian_value b i j c) ` set ?blobs =
      (\<lambda>inst. gaussian_value (blob_of dt gr hr wr grad giou coff inst) i j c) `
        set (zip boxes cs)"
    for i j c
    by (simp add: image_image)
  show ?thesis
    unfolding gaussian_heatmap_def blobs
    by (simp only: sum.case reduce_max_draw_gaussian [OF ne] img)
qed

subsection \<open>What the builder returns\<close>

lemma scatter_rows_int:
  "length vs = nat k \<Longrightarrow> nat k \<le> length t \<Longrightarrow>
   tensor_scatter_nd_update t (update_indices k) vs = Inr (vs @ drop (nat k) t)"
  by (simp add: update_indices_def scatter_rows_iff)

lemma parse_dtype_Inr:
  "dtype \<in> {''float16'', ''bfloat16'', ''float32''} \<Longrightarrow> \<exists>dt. parse_dtype dtype = Inr dt"
  by (auto simp: parse_dtype_def)

lemma parse_dtype_Inl:
  "dtype \<notin> {''float16'', ''bfloat16'', ''float32''} \<Longrightarrow>
   parse_dtype dtype = Inl Unsupported_datatype"
  by (auto simp: parse_dtype_def)

lemma parse_dtype_Inr_mem:
  "parse_dtype dtype = Inr dt \<Longrightarrow> dtype \<in> {''float16'', ''bfloat16'', ''float32''}"
  by (auto simp: parse_dtype_def split: if_splits)

lemma valid_call_dtype:
  assumes "valid_call lbls output_size input_size num_classes max_num_instances
             use_gaussian_bump class_offset dtype"
  obtains dt where "parse_dtype dtype = Inr dt"
  using assms by (auto simp: valid_call_def split: sum.splits)

lemma instances_zip:
  "instances lbls =
   zip (take (nat (num_detections lbls)) (bbox lbls))
       (take (nat (num_detections lbls)) (classes lbls))"
  by (simp add: instances_def take_zip)

lemma build_pos:
  fixes lbls output_size input_size num_classes max_num_instances dt
  defines "hr \<equiv> height_ratio dt output_size input_size"
    and "wr \<equiv> width_ratio dt output_size input_size"
    and "n \<equiv> nat (num_detections lbls)"
    and "h \<equiv> nat (output_h dt output_size)"
    and "w \<equiv> nat (output_w dt output_size)"
  assumes p: "parse_dtype dtype = Inr dt"
    and v: "valid_call lbls output_size input_size num_classes max_num_instances
                use_gaussian_bump class_offset dtype"
    and pos: "0 < num_detections lbls"
  shows "build_heatmap_and_regressed_features gaussian_radius lbls output_size input_size
           num_classes max_num_instances use_gaussian_bump gaussian_rad gaussian_iou
           class_offset dtype =
    Inr \<lparr>ct_heatmaps =
           (if use_gaussian_bump
            then tabulate3 h w num_classes (\<lambda>i j c.
                   Max ((\<lambda>inst. gaussian_value
                          (blob_of dt gaussian_radius hr wr gaussian_rad gaussian_iou
                             class_offset inst) i j c) ` set (instances lbls)))
            else tabulate3 h w num_classes (\<lambda>i j c.
                   if (int i, int j, int c) \<in>
                        set (map (hm_index dt hr wr class_offset) (instances lbls))
                   then 1 else 0)),
         ct_offset = map (ct_offset_values dt hr wr)
                       (map (cast_box dt) (take n (bbox lbls))) @
                       replicate (max_num_instances - n) (0, 0),
         size_hw = map (box_heights_widths dt hr wr)
                       (map (cast_box dt) (take n (bbox lbls))) @
                       replicate (max_num_instances - n) (0, 0),
         box_mask = replicate n 1 @ replicate (max_num_instances - n) 0,
         box_indices = map (box_index_values dt hr wr)
                       (map (cast_box dt) (take n (bbox lbls))) @
                       replicate (max_num_instances - n) (0, 0)\<rparr>"
proof -
  let ?N = "num_detections lbls"
  let ?boxes = "take n (bbox lbls)"
  let ?cs = "take n (classes lbls)"
  from v pos have nb: "n \<le> length (bbox lbls)" and nc: "n \<le> length (classes lbls)"
    and nm: "n \<le> max_num_instances"
    by (simp_all add: valid_call_def p n_def)
  from v have nh: "(output_h dt output_size < 0 \<or> output_w dt output_size < 0) = False"
    by (simp add: valid_call_def p not_less)
  have lb: "length ?boxes = nat ?N" and lc: "length ?cs = nat ?N"
    using nb nc by (simp_all add: n_def)
  have b: "slice_to ?N (map (cast_box dt) (bbox lbls)) = map (cast_box dt) ?boxes"
    using pos by (simp add: slice_to_pos n_def take_map)
  have c: "slice_to ?N (map (cast_class dt class_offset) (classes lbls)) =
           map (cast_class dt class_offset) ?cs"
    using pos by (simp add: slice_to_pos n_def take_map)
  have inst: "instances lbls = zip ?boxes ?cs"
    by (simp add: instances_zip n_def)
  have g: "gaussian_heatmap dt gaussian_radius (h, w, num_classes)
             (map (cast_class dt class_offset) ?cs) (map (cast_box dt) ?boxes) hr wr
             gaussian_rad gaussian_iou max_num_instances ?N =
           Inr (tabulate3 h w num_classes (\<lambda>i j c.
                   Max ((\<lambda>inst. gaussian_value
                          (blob_of dt gaussian_radius hr wr gaussian_rad gaussian_iou
                             class_offset inst) i j c) ` set (instances lbls))))"
    unfolding inst using lb lc nm pos by (intro gaussian_heatmap_eq) (simp_all add: n_def)
  have s: "scatter_heatmap dt (zeros3 h w num_classes)
             (map (cast_class dt class_offset) ?cs) (map (cast_box dt) ?boxes) hr wr ?N =
           Inr (tabulate3 h w num_classes (\<lambda>i j c.
                   if (int i, int j, int c) \<in>
                        set (map (hm_index dt hr wr class_offset) (instances lbls))
                   then 1 else 0))"
    if "\<not> use_gaussian_bump"
    unfolding inst
  proof (rule scatter_heatmap_eq [OF lb lc])
    from v pos that
    show "list_all (in_grid (h, w) num_classes)
            (map (hm_index dt hr wr class_offset) (zip ?boxes ?cs))"
      by (simp add: valid_call_def p inst [symmetric] hr_def wr_def h_def w_def
          heatmap_size_def)
  qed
  have s1: "tensor_scatter_nd_update (replicate max_num_instances (0, 0)) (update_indices ?N)
              (map F (map (cast_box dt) ?boxes)) =
            Inr (map F (map (cast_box dt) ?boxes) @ replicate (max_num_instances - n) (0, 0))"
    for F :: "box \<Rightarrow> 'a::zero \<times> 'a"
    using lb nm by (subst scatter_rows_int) (simp_all add: n_def)
  have s2: "tensor_scatter_nd_update (replicate max_num_instances 0) (update_indices ?N)
              (replicate (nat ?N) 1) =
            Inr (replicate n (1::int) @ replicate (max_num_instances - n) 0)"
    using nm by (subst scatter_rows_int) (simp_all add: n_def)
  show ?thesis
  proof (cases use_gaussian_bump)
    case True
    show ?thesis
      unfolding build_heatmap_and_regressed_features_def Let_def p sum.case b c nh
        hr_def [symmetric] wr_def [symmetric] h_def [symmetric] w_def [symmetric]
      using pos True by (simp only: sum.case if_True if_False g s1 s2)
  next
    case False
    show ?thesis
      unfolding build_heatmap_and_regressed_features_def Let_def p sum.case b c nh
        hr_def [symmetric] wr_def [symmetric] h_def [symmetric] w_def [symmetric]
      using pos False by (simp only: sum.case if_True if_False s [OF False] s1 s2)
  qed
qed

lemma build_nonpos:
  assumes "parse_dtype dtype = Inr dt"
    and "0 \<le> output_h dt output_size" "0 \<le> output_w dt output_size"
    and "num_detections lbls \<le> 0"
  shows "build_heatmap_and_regressed_features gaussian_radius lbls output_size input_size
           num_classes max_num_instances use_gaussian_bump gaussian_rad gaussian_iou
           class_offset dtype =
    Inr \<lparr>ct_heatmaps = zeros3 (nat (output_h dt output_size)) (nat (output_w dt output_size))
                         num_classes,
         ct_offset = replicate max_num_instances (0, 0),
         size_hw = replicate max_num_instances (0, 0),
         box_mask = replicate max_num_instances 0,
         box_indices = replicate max_num_instances (0, 0)\<rparr>"
  unfolding build_heatmap_and_regressed_features_def Let_def assms(1)
  using assms(2-4) by (simp add: not_less)

lemma build_unsupported:
  assumes "dtype \<notin> {''float16'', ''bfloat16'', ''float32''}"
  shows "build_heatmap_and_regressed_features gaussian_radius lbls output_size input_size
           num_classes max_num_instances use_gaussian_bump gaussian_rad gaussian_iou
           class_offset dtype = Inl Unsupported_datatype"
  unfolding build_heatmap_and_regressed_features_def parse_dtype_Inl [OF assms]
  by simp

lemma scatter_Inl: "tensor_scatter_nd_update t is vs = Inl e \<Longrightarrow> e = Invalid_argument"
  by (auto simp: tensor_scatter_nd_update_def split: if_splits)

lemma scatter3_Inl: "tensor_scatter_nd_update3 t is vs = Inl e \<Longrightarrow> e = Invalid_argument"
  by (auto simp: tensor_scatter_nd_update3_def split: if_splits)

lemma reduce_max_Inl: "reduce_max ts = Inl e \<Longrightarrow> e = Invalid_argument"
  by (cases ts) auto

lemma gaussian_heatmap_Inl:
  "gaussian_heatmap dt gr shape cls boxes hr wr grad giou m k = Inl e \<Longrightarrow>
   e = Invalid_argument"
  by (auto simp: gaussian_heatmap_def ct_blobs_def stack4_def
      split: sum.splits if_splits dest: reduce_max_Inl)

lemma scatter_heatmap_Inl:
  "scatter_heatmap dt t cls boxes hr wr k = Inl e \<Longrightarrow> e = Invalid_argument"
  by (auto simp: scatter_heatmap_def ct_hm_update_indices_def stack3_def
      split: sum.splits if_splits dest: scatter3_Inl)

lemma build_Inl:
  assumes "build_heatmap_and_regressed_features gaussian_radius lbls output_size input_size
           num_classes max_num_instances use_gaussian_bump gaussian_rad gaussian_iou
           class_offset dtype = Inl e"
    and "dtype \<in> {''float16'', ''bfloat16'', ''float32''}"
  shows "e = Invalid_argument"
proof -
  from assms(2) obtain dt where p: "parse_dtype dtype = Inr dt"
    using parse_dtype_Inr by blast
  show ?thesis
    using assms(1)
    unfolding build_heatmap_and_regressed_features_def Let_def p
    by (auto split: sum.splits if_splits
        dest: scatter_Inl gaussian_heatmap_Inl scatter_heatmap_Inl)
qed

lemma gaussian_heatmap_Inr_length:
  "gaussian_heatmap dt gr shape cls boxes hr wr grad giou m k = Inr t \<Longrightarrow>
   length cls = length boxes"
  by (auto simp: gaussian_heatmap_def ct_blobs_def stack4_def split: sum.splits if_splits)

lemma scatter_heatmap_Inr_length:
  "scatter_heatmap dt t0 cls boxes hr wr k = Inr t \<Longrightarrow> length cls = length boxes"
  by (auto simp: scatter_heatmap_def ct_hm_update_indices_def stack3_def
      split: sum.splits if_splits)

lemma build_Inr_valid:
  assumes r: "build_heatmap_and_regressed_features gaussian_radius lbls output_size input_size
           num_classes max_num_instances use_gaussian_bump gaussian_rad gaussian_iou
           class_offset dtype = Inr out"
  shows "valid_call lbls output_size input_size num_classes max_num_instances
           use_gaussian_bump class_offset dtype"
proof -
  let ?N = "num_detections lbls"
  have d: "dtype \<in> {''float16'', ''bfloat16'', ''float32''}"
  proof (rule ccontr)
    assume "\<not> ?thesis"
    from build_unsupported [OF this] r show False by simp
  qed
  then obtain dt where p: "parse_dtype dtype = Inr dt"
    using parse_dtype_Inr by blast
  let ?hr = "height_ratio dt output_size input_size"
  let ?wr = "width_ratio dt output_size input_size"
  let ?h = "nat (output_h dt output_size)"
  let ?w = "nat (output_w dt output_size)"
  have sh: "0 \<le> output_h dt output_size" "0 \<le> output_w dt output_size"
    using r unfolding build_heatmap_and_regressed_features_def Let_def p
    by (auto split: if_splits)
  then have nh: "(output_h dt output_size < 0 \<or> output_w dt output_size < 0) = False"
    by (simp add: not_less)
  show ?thesis
  proof (cases "0 < ?N")
    case False
    with sh show ?thesis by (simp add: valid_call_def p)
  next
    case True
    let ?boxes = "take (nat ?N) (bbox lbls)"
    let ?cs = "take (nat ?N) (classes lbls)"
    let ?cboxes = "map (cast_box dt) ?boxes"
    let ?ccs = "map (cast_class dt class_offset) ?cs"
    have b: "slice_to ?N (map (cast_box dt) (bbox lbls)) = ?cboxes"
      using True by (simp add: slice_to_pos take_map)
    have c: "slice_to ?N (map (cast_class dt class_offset) (classes lbls)) = ?ccs"
      using True by (simp add: slice_to_pos take_map)
    let ?heat = "if use_gaussian_bump
       then gaussian_heatmap dt gaussian_radius (?h, ?w, num_classes)
              ?ccs ?cboxes ?hr ?wr gaussian_rad gaussian_iou max_num_instances ?N
       else scatter_heatmap dt (zeros3 ?h ?w num_classes) ?ccs ?cboxes ?hr ?wr ?N"
    from r obtain hm off where heat: "?heat = Inr hm"
      and offs: "tensor_scatter_nd_update (replicate max_num_instances (0, 0))
                   (update_indices ?N) (map (ct_offset_values dt ?hr ?wr) ?cboxes) = Inr off"
      unfolding build_heatmap_and_regressed_features_def Let_def p sum.case b c nh
      using True by (auto split: sum.splits if_splits)
    from offs have lb: "length ?boxes = nat ?N" and nm: "nat ?N \<le> max_num_instances"
      by (simp_all add: update_indices_def scatter_rows_iff)
    from lb have nb: "nat ?N \<le> length (bbox lbls)" by simp
    from heat have "length ?ccs = length ?cboxes"
      by (auto split: if_splits
          dest: gaussian_heatmap_Inr_length scatter_heatmap_Inr_length)
    with lb have lc: "length ?cs = nat ?N" by simp
    then have nc: "nat ?N \<le> length (classes lbls)" by simp
    have grid: "list_all (in_grid (heatmap_size dt output_size) num_classes)
        (map (hm_index dt ?hr ?wr class_offset) (instances lbls))" if "\<not> use_gaussian_bump"
    proof (rule ccontr)
      assume "\<not> ?thesis"
      then have "\<not> list_all (in_grid (?h, ?w) num_classes)
        (map (hm_index dt ?hr ?wr class_offset) (zip ?boxes ?cs))"
        by (simp add: instances_zip heatmap_size_def)
      from scatter_heatmap_error [OF _ this, of ?N] lb lc heat that
      show False by simp
    qed
    from sh nb nc nm grid show ?thesis
      by (simp add: valid_call_def p)
  qed
qed

lemma build_returns:
  assumes v: "valid_call lbls output_size input_size num_classes max_num_instances
                use_gaussian_bump class_offset dtype"
  shows "\<exists>out. build_heatmap_and_regressed_features gaussian_radius lbls output_size
           input_size num_classes max_num_instances use_gaussian_bump gaussian_rad
           gaussian_iou class_offset dtype = Inr out"
proof -
  from v obtain dt where p: "parse_dtype dtype = Inr dt" by (rule valid_call_dtype)
  show ?thesis
  proof (cases "0 < num_detections lbls")
    case True
    from build_pos [OF p v True] show ?thesis by blast
  next
    case False
    with v build_nonpos [OF p, of output_size lbls] show ?thesis
      by (simp add: valid_call_def p)
  qed
qed

lemma build_rows:
  fixes lbls output_size input_size dt
  defines "hr \<equiv> height_ratio dt output_size input_size"
    and "wr \<equiv> width_ratio dt output_size input_size"
  assumes p: "parse_dtype dtype = Inr dt"
    and v: "valid_call lbls output_size input_size num_classes max_num_instances
                use_gaussian_bump class_offset dtype"
    and k: "k < nat (num_detections lbls)"
    and r: "build_heatmap_and_regressed_features gaussian_radius lbls output_size
           input_size num_classes max_num_instances use_gaussian_bump gaussian_rad
           gaussian_iou class_offset dtype = Inr out"
  shows "ct_offset out ! k = ct_offset_values dt hr wr (cast_box dt (bbox lbls ! k))"
    and "size_hw out ! k = box_heights_widths dt hr wr (cast_box dt (bbox lbls ! k))"
    and "box_mask out ! k = 1"
    and "box_indices out ! k = box_index_values dt hr wr (cast_box dt (bbox lbls ! k))"
proof -
  from k have pos: "0 < num_detections lbls" by simp
  from v pos have nb: "nat (num_detections lbls) \<le> length (bbox lbls)"
    by (simp add: valid_call_def p)
  note eq = build_pos [OF p v pos, of gaussian_radius gaussian_rad gaussian_iou]
  from r eq k nb
  show "ct_offset out ! k = ct_offset_values dt hr wr (cast_box dt (bbox lbls ! k))"
    by (auto simp: nth_append hr_def wr_def)
  from r eq k nb
  show "size_hw out ! k = box_heights_widths dt hr wr (cast_box dt (bbox lbls ! k))"
    by (auto simp: nth_append hr_def wr_def)
  from r eq k nb show "box_mask out ! k = 1"
    by (auto simp: nth_append)
  from r eq k nb
  show "box_indices out ! k = box_index_values dt hr wr (cast_box dt (bbox lbls ! k))"
    by (auto simp: nth_append hr_def wr_def)
qed

lemma build_padding:
  assumes v: "valid_call lbls output_size input_size num_classes max_num_instances
                use_gaussian_bump class_offset dtype"
    and r: "build_heatmap_and_regressed_features gaussian_radius lbls output_size
           input_size num_classes max_num_instances use_gaussian_bump gaussian_rad
           gaussian_iou class_offset dtype = Inr out"
  shows "length (ct_offset out) = max_num_instances"
    and "length (size_hw out) = max_num_instances"
    and "length (box_mask out) = max_num_instances"
    and "length (box_indices out) = max_num_instances"
    and "i < max_num_instances \<Longrightarrow> \<not> int i < num_detections lbls \<Longrightarrow>
         ct_offset out ! i = (0, 0) \<and> size_hw out ! i = (0, 0) \<and>
         box_mask out ! i = 0 \<and> box_indices out ! i = (0, 0)"
proof -
  from v obtain dt where p: "parse_dtype dtype = Inr dt" by (rule valid_call_dtype)
  have all: "length (ct_offset out) = max_num_instances \<and>
    length (size_hw out) = max_num_instances \<and>
    length (box_mask out) = max_num_instances \<and>
    length (box_indices out) = max_num_instances \<and>
    (i < max_num_instances \<longrightarrow> \<not> int i < num_detections lbls \<longrightarrow>
         ct_offset out ! i = (0, 0) \<and> size_hw out ! i = (0, 0) \<and>
         box_mask out ! i = 0 \<and> box_indices out ! i = (0, 0))"
  proof (cases "0 < num_detections lbls")
    case True
    from v True have nb: "nat (num_detections lbls) \<le> length (bbox lbls)"
      and nm: "nat (num_detections lbls) \<le> max_num_instances"
      by (simp_all add: valid_call_def p)
    note eq = build_pos [OF p v True, of gaussian_radius gaussian_rad gaussian_iou]
    from r eq nb nm show ?thesis
      by (auto simp: nth_append)
  next
    case False
    from v have sh: "0 \<le> output_h dt output_size" "0 \<le> output_w dt output_size"
      by (simp_all add: valid_call_def p)
    from False have "num_detections lbls \<le> 0" by simp
    from build_nonpos [OF p sh this, of gaussian_radius input_size num_classes
        max_num_instances use_gaussian_bump gaussian_rad gaussian_iou class_offset] r
    show ?thesis by auto
  qed
  from all show "length (ct_offset out) = max_num_instances"
    and "length (size_hw out) = max_num_instances"
    and "length (box_mask out) = max_num_instances"
    and "length (box_indices out) = max_num_instances"
    by simp_all
  from all show "i < max_num_instances \<Longrightarrow> \<not> int i < num_detections lbls \<Longrightarrow>
         ct_offset out ! i = (0, 0) \<and> size_hw out ! i = (0, 0) \<and>
         box_mask out ! i = 0 \<and> box_indices out ! i = (0, 0)"
    by simp
qed


lemma gaussian_value_bounds: "0 \<le> gaussian_value b i j c \<and> gaussian_value b i j c \<le> 1"
proof -
  obtain cls row col r where b: "b = (cls, row, col, r)" by (cases b)
  have "0 \<le> ((real i - row)\<^sup>2 + (real j - col)\<^sup>2) / (2 * (r / 3)\<^sup>2)"
    by (intro divide_nonneg_nonneg add_nonneg_nonneg mult_nonneg_nonneg) simp_all
  then have "exp (- (((real i - row)\<^sup>2 + (real j - col)\<^sup>2) / (2 * (r / 3)\<^sup>2))) \<le> 1"
    by simp
  then have "exp (- ((real i - row)\<^sup>2 + (real j - col)\<^sup>2) / (2 * (r / 3)\<^sup>2)) \<le> 1"
    by (simp only: minus_divide_left)
  then show ?thesis
    by (simp add: gaussian_value_def b)
qed

lemma gaussian_value_outside: "\<not> in_window b i j c \<Longrightarrow> gaussian_value b i j c = 0"
  by (cases b) (simp add: gaussian_value_def)

lemma cell_zeros3: "i < h \<Longrightarrow> j < w \<Longrightarrow> c < n \<Longrightarrow> cell (zeros3 h w n) i j c = 0"
  by (simp add: zeros3_tabulate3 cell_tabulate3)

lemma Max_image_bounds:
  fixes f :: "'a \<Rightarrow> real"
  assumes "xs \<noteq> []" and "\<And>x. x \<in> set xs \<Longrightarrow> lo \<le> f x \<and> f x \<le> hi"
  shows "lo \<le> Max (f ` set xs) \<and> Max (f ` set xs) \<le> hi"
proof -
  have "Max (f ` set xs) \<in> f ` set xs"
    using assms(1) by (intro Max_in) simp_all
  then obtain x where "x \<in> set xs" "Max (f ` set xs) = f x" by auto
  with assms(2) show ?thesis by simp
qed

lemma Max_image_const:
  fixes f :: "'a \<Rightarrow> real"
  assumes "xs \<noteq> []" and "\<And>x. x \<in> set xs \<Longrightarrow> f x = v"
  shows "Max (f ` set xs) = v"
  using Max_image_bounds [OF assms(1), of v f v] assms(2) by simp

lemma build_instance_rows:
  fixes lbls output_size input_size dt
  defines "hr \<equiv> height_ratio dt output_size input_size"
    and "wr \<equiv> width_ratio dt output_size input_size"
  assumes p: "parse_dtype dtype = Inr dt"
    and v: "valid_call lbls output_size input_size num_classes max_num_instances
                use_gaussian_bump class_offset dtype"
    and pos: "0 < num_detections lbls"
    and r: "build_heatmap_and_regressed_features gaussian_radius lbls output_size
           input_size num_classes max_num_instances use_gaussian_bump gaussian_rad
           gaussian_iou class_offset dtype = Inr out"
  shows "instance_rows (nat (num_detections lbls)) out =
         map (\<lambda>inst. (ct_offset_values dt hr wr (cast_box dt (fst inst)),
                      box_heights_widths dt hr wr (cast_box dt (fst inst)),
                      1, box_index_values dt hr wr (cast_box dt (fst inst))))
           (instances lbls)"
proof -
  let ?n = "nat (num_detections lbls)"
  let ?row = "\<lambda>inst. (ct_offset_values dt hr wr (cast_box dt (fst inst)),
                      box_heights_widths dt hr wr (cast_box dt (fst inst)),
                      1::int, box_index_values dt hr wr (cast_box dt (fst inst)))"
  from v pos have nb: "?n \<le> length (bbox lbls)" and nc: "?n \<le> length (classes lbls)"
    and nm: "?n \<le> max_num_instances"
    by (simp_all add: valid_call_def p)
  note len = build_padding(1-4) [OF v r]
  have l1: "length (instance_rows ?n out) = ?n"
    using nm by (simp add: instance_rows_def len)
  have l2: "length (instances lbls) = ?n"
    using nb nc by (simp add: instances_def)
  show ?thesis
  proof (rule nth_equalityI)
    show "length (instance_rows ?n out) = length (map ?row (instances lbls))"
      by (simp add: l1 l2)
  next
    fix k assume "k < length (instance_rows ?n out)"
    then have k: "k < ?n" by (simp add: l1)
    note rows = build_rows [OF p v k r]
    have "instance_rows ?n out ! k =
        (ct_offset out ! k, size_hw out ! k, box_mask out ! k, box_indices out ! k)"
      using k nm by (simp add: instance_rows_def len)
    moreover have "fst (instances lbls ! k) = bbox lbls ! k"
      using k nb nc by (simp add: instances_def)
    ultimately show "instance_rows ?n out ! k = map ?row (instances lbls) ! k"
      using k l2 by (simp add: rows hr_def wr_def)
  qed
qed

lemma valid_call_permuted:
  assumes v: "valid_call lbls output_size input_size num_classes max_num_instances
                use_gaussian_bump class_offset dtype"
    and n: "num_detections lbls' = num_detections lbls"
    and p: "mset (instances lbls') = mset (instances lbls)"
  shows "valid_call lbls' output_size input_size num_classes max_num_instances
                use_gaussian_bump class_offset dtype"
proof -
  from v obtain dt where d: "parse_dtype dtype = Inr dt" by (rule valid_call_dtype)
  show ?thesis
  proof (cases "0 < num_detections lbls")
    case False
    with v n show ?thesis by (simp add: valid_call_def d)
  next
    case True
    let ?n = "nat (num_detections lbls)"
    from v True have nb: "?n \<le> length (bbox lbls)" and nc: "?n \<le> length (classes lbls)"
      by (simp_all add: valid_call_def d)
    then have "length (instances lbls) = ?n" by (simp add: instances_def)
    with p have "length (instances lbls') = ?n"
      by (metis size_mset)
    then have "?n \<le> length (bbox lbls')" "?n \<le> length (classes lbls')"
      by (simp_all add: instances_def n)
    moreover from p have "set (instances lbls') = set (instances lbls)"
      by (rule mset_eq_setD)
    ultimately show ?thesis
      using v True n by (simp add: valid_call_def d list_all_iff)
  qed
qed

subsection \<open>The floor and the clamp of lines 170-171 are monotone\<close>

lemma radius_of_mono:
  assumes "\<And>h h' w w'. h \<le> h' \<Longrightarrow> w \<le> w' \<Longrightarrow>
             gaussian_radius (h, w) gaussian_iou \<le> gaussian_radius (h', w') gaussian_iou"
    and "fst hw \<le> fst hw'" and "snd hw \<le> snd hw'"
  shows "radius_of gaussian_radius (- 1) gaussian_iou hw \<le>
         radius_of gaussian_radius (- 1) gaussian_iou hw'"
proof -
  have "gaussian_radius (real_of_int \<lceil>fst hw\<rceil>, real_of_int \<lceil>snd hw\<rceil>) gaussian_iou \<le>
        gaussian_radius (real_of_int \<lceil>fst hw'\<rceil>, real_of_int \<lceil>snd hw'\<rceil>) gaussian_iou"
    using assms(2,3) by (intro assms(1)) (simp_all add: ceiling_mono)
  then have "real_of_int \<lfloor>gaussian_radius
                (real_of_int \<lceil>fst hw\<rceil>, real_of_int \<lceil>snd hw\<rceil>) gaussian_iou\<rfloor> \<le>
             real_of_int \<lfloor>gaussian_radius
                (real_of_int \<lceil>fst hw'\<rceil>, real_of_int \<lceil>snd hw'\<rceil>) gaussian_iou\<rfloor>"
    by (simp add: floor_mono)
  then show ?thesis
    by (simp add: radius_of_def max.coboundedI1)
qed

lemma build_returns_iff:
  "(\<exists>out. build_heatmap_and_regressed_features gaussian_radius lbls output_size
           input_size num_classes max_num_instances use_gaussian_bump gaussian_rad
           gaussian_iou class_offset dtype = Inr out) \<longleftrightarrow>
   valid_call lbls output_size input_size num_classes max_num_instances
     use_gaussian_bump class_offset dtype"
proof
  assume "\<exists>out. build_heatmap_and_regressed_features gaussian_radius lbls output_size
           input_size num_classes max_num_instances use_gaussian_bump gaussian_rad
           gaussian_iou class_offset dtype = Inr out"
  then obtain out where "build_heatmap_and_regressed_features gaussian_radius lbls output_size
           input_size num_classes max_num_instances use_gaussian_bump gaussian_rad
           gaussian_iou class_offset dtype = Inr out" ..
  then show "valid_call lbls output_size input_size num_classes max_num_instances
     use_gaussian_bump class_offset dtype"
    by (rule build_Inr_valid)
next
  assume "valid_call lbls output_size input_size num_classes max_num_instances
     use_gaussian_bump class_offset dtype"
  then show "\<exists>out. build_heatmap_and_regressed_features gaussian_radius lbls output_size
           input_size num_classes max_num_instances use_gaussian_bump gaussian_rad
           gaussian_iou class_offset dtype = Inr out"
    by (rule build_returns)
qed

section \<open>The claims\<close>

subsection \<open>The first box of the fixture in \<open>float16\<close> and \<open>float32\<close>\<close>

lemma rnd_dyadic_small:
  assumes "dt \<noteq> Bfloat16" "\<bar>m\<bar> < 2048" "k \<le> 24"
  shows "rnd dt (real_of_int m / 2 ^ k) = real_of_int m / 2 ^ k"
proof (rule rnd_dyadic)
  from assms(1,2) show "\<bar>m\<bar> < 2 ^ precision dt" by (cases dt) simp_all
  from assms(1,3) show "emin dt - int (precision dt) + 1 \<le> - int k" by (cases dt) simp_all
qed

lemma rnd_fixture:
  assumes "dt \<noteq> Bfloat16"
  shows "rnd dt 10 = 10" "rnd dt 300 = 300" "rnd dt 15 = 15" "rnd dt 370 = 370"
    and "rnd dt 128 = 128" "rnd dt 512 = 512" "rnd dt (1 / 4) = 1 / 4"
    and "rnd dt 25 = 25" "rnd dt (25 / 2) = 25 / 2" "rnd dt (25 / 8) = 25 / 8"
    and "rnd dt (1 / 8) = 1 / 8"
    and "rnd dt 670 = 670" "rnd dt 335 = 335" "rnd dt (335 / 4) = 335 / 4"
    and "rnd dt (3 / 4) = 3 / 4"
    and "rnd dt 5 = 5" "rnd dt (5 / 4) = 5 / 4" "rnd dt 70 = 70" "rnd dt (35 / 2) = 35 / 2"
  using rnd_dyadic_small [OF assms, of 10 0] rnd_dyadic_small [OF assms, of 300 0]
    rnd_dyadic_small [OF assms, of 15 0] rnd_dyadic_small [OF assms, of 370 0]
    rnd_dyadic_small [OF assms, of 128 0] rnd_dyadic_small [OF assms, of 512 0]
    rnd_dyadic_small [OF assms, of 1 2] rnd_dyadic_small [OF assms, of 25 0]
    rnd_dyadic_small [OF assms, of 25 1] rnd_dyadic_small [OF assms, of 25 3]
    rnd_dyadic_small [OF assms, of 1 3] rnd_dyadic_small [OF assms, of 670 0]
    rnd_dyadic_small [OF assms, of 335 0] rnd_dyadic_small [OF assms, of 335 2]
    rnd_dyadic_small [OF assms, of 3 2] rnd_dyadic_small [OF assms, of 5 0]
    rnd_dyadic_small [OF assms, of 5 2] rnd_dyadic_small [OF assms, of 70 0]
    rnd_dyadic_small [OF assms, of 35 1]
  by simp_all

lemma fixture_sizes:
  assumes "dt \<noteq> Bfloat16"
  shows "output_h dt (128, 128) = 128" "output_w dt (128, 128) = 128"
    and "height_ratio dt (128, 128) (512, 512) = 1 / 4"
    and "width_ratio dt (128, 128) (512, 512) = 1 / 4"
  by (simp_all add: output_h_def output_w_def height_ratio_def width_ratio_def cast_size_def
      rnd_fixture [OF assms] cast_int32_def)

lemma fixture_box:
  assumes "dt \<noteq> Bfloat16"
  shows "cast_box dt (10, 300, 15, 370) = (10, 300, 15, 370)"
    and "scale_yct dt (1 / 4) (10, 300, 15, 370) = 25 / 8"
    and "scale_xct dt (1 / 4) (10, 300, 15, 370) = 335 / 4"
    and "ct_offset_values dt (1 / 4) (1 / 4) (10, 300, 15, 370) = (1 / 8, 3 / 4)"
    and "box_heights_widths dt (1 / 4) (1 / 4) (10, 300, 15, 370) = (5 / 4, 35 / 2)"
    and "box_index_values dt (1 / 4) (1 / 4) (10, 300, 15, 370) = (3, 83)"
    and "scale_yct_floor dt (1 / 4) (10, 300, 15, 370) = 3"
    and "scale_xct_floor dt (1 / 4) (10, 300, 15, 370) = 83"
  by (simp_all add: cast_box_def scale_yct_def scale_xct_def yct_def xct_def
      ct_offset_values_def box_heights_widths_def box_index_values_def
      scale_yct_floor_def scale_xct_floor_def rnd_fixture [OF assms] cast_int32_def)

lemma fixture_valid_gaussian:
  "valid_call fixture_labels (128, 128) (512, 512) 90 128 True 0 ''float32''"
  by (simp add: valid_call_def parse_dtype_def fixture_labels_def fixture_sizes)

lemma rnd_bfloat16_257: "rnd Bfloat16 257 = 256"
  using rnd_eval [of 8 257 Bfloat16] by (simp add: round_half_even_def)

lemma rnd_bfloat16_670: "rnd Bfloat16 670 = 672"
  using rnd_eval [of 9 670 Bfloat16] by (simp add: round_half_even_def)

subsection \<open>C3: no instances\<close>

text \<open>
  Claim C3 promises, for \<open>num_detections = 0\<close>, an all-zero bundle of the full declared
  shapes. Line 147 takes the height and the width of the heatmap from \<open>output_size\<close>
  as cast to the selected kind at line 103. With \<open>bfloat16\<close>, whose significand has 8
  bits, the output size \<open>[257, 257]\<close> is cast to \<open>[256, 256]\<close>: for a record of 128 padding
  instances and no detection the builder returns the all-zero bundle whose heatmap has
  the shape \<open>[256, 256, 90]\<close>, not the shape \<open>[257, 257, 90]\<close> that the docstring (lines
  47-48 and 65) declares. The per-instance arrays have their declared shapes, and for
  every output size that the kind holds exactly the heatmap has its declared shape too
  (lemma \<open>build_nonpos\<close>).
\<close>

theorem zero_count_heatmap_shape:
  "build_heatmap_and_regressed_features unit_radius
     \<lparr>bbox = replicate 128 (0, 0, 0, 0), classes = replicate 128 (- 1), num_detections = 0\<rparr>
     (257, 257) (512, 512) 90 128 True (- 1) (7 / 10) 0 ''bfloat16'' =
   Inr \<lparr>ct_heatmaps = zeros3 256 256 90,
        ct_offset = replicate 128 (0, 0),
        size_hw = replicate 128 (0, 0),
        box_mask = replicate 128 0,
        box_indices = replicate 128 (0, 0)\<rparr> \<and>
   length (zeros3 256 256 90) = 256 \<and>
   zeros3 256 256 90 \<noteq> zeros3 257 257 90"
proof -
  have p: "parse_dtype ''bfloat16'' = Inr Bfloat16"
    by (simp add: parse_dtype_def)
  have h: "output_h Bfloat16 (257, 257) = 256" and w: "output_w Bfloat16 (257, 257) = 256"
    by (simp_all add: output_h_def output_w_def cast_size_def rnd_bfloat16_257 cast_int32_def)
  have "length (zeros3 256 256 90) \<noteq> length (zeros3 257 257 90)"
    by (simp add: zeros3_def)
  then have "zeros3 256 256 90 \<noteq> zeros3 257 257 90" by auto
  moreover have "length (zeros3 256 256 90) = 256" by (simp add: zeros3_def)
  ultimately show ?thesis
    using build_nonpos [OF p, of "(257, 257)"
        "\<lparr>bbox = replicate 128 (0, 0, 0, 0), classes = replicate 128 (- 1),
          num_detections = 0\<rparr>" unit_radius "(512, 512)" 90 128
        True "- 1" "7 / 10" 0]
    by (simp add: h w)
qed

subsection \<open>C4: the configuration error\<close>

text \<open>
  Claim C4. The builder raises the configuration error \<open>Unsupported_datatype\<close>, and
  returns nothing, if and only if \<open>dtype\<close> is not one of \<open>float16\<close>, \<open>bfloat16\<close> and
  \<open>float32\<close>; with one of these three it never raises that error, and it returns a
  bundle on every valid call.
\<close>

theorem precision_error_iff:
  "(build_heatmap_and_regressed_features gaussian_radius lbls output_size input_size
      num_classes max_num_instances use_gaussian_bump gaussian_rad gaussian_iou
      class_offset dtype = Inl Unsupported_datatype
    \<longleftrightarrow> dtype \<notin> {''float16'', ''bfloat16'', ''float32''}) \<and>
   (dtype \<notin> {''float16'', ''bfloat16'', ''float32''} \<longrightarrow>
      (\<forall>out. build_heatmap_and_regressed_features gaussian_radius lbls output_size
         input_size num_classes max_num_instances use_gaussian_bump gaussian_rad gaussian_iou
         class_offset dtype \<noteq> Inr out)) \<and>
   (valid_call lbls output_size input_size num_classes max_num_instances use_gaussian_bump
      class_offset dtype \<longrightarrow>
      (\<exists>out. build_heatmap_and_regressed_features gaussian_radius lbls output_size
         input_size num_classes max_num_instances use_gaussian_bump gaussian_rad gaussian_iou
         class_offset dtype = Inr out))"
proof (intro conjI impI allI)
  let ?B = "build_heatmap_and_regressed_features gaussian_radius lbls output_size input_size
      num_classes max_num_instances use_gaussian_bump gaussian_rad gaussian_iou
      class_offset dtype"
  show "?B = Inl Unsupported_datatype \<longleftrightarrow>
        dtype \<notin> {''float16'', ''bfloat16'', ''float32''}"
  proof
    assume e: "?B = Inl Unsupported_datatype"
    show "dtype \<notin> {''float16'', ''bfloat16'', ''float32''}"
    proof
      assume "dtype \<in> {''float16'', ''bfloat16'', ''float32''}"
      from build_Inl [OF e this] show False by simp
    qed
  next
    assume "dtype \<notin> {''float16'', ''bfloat16'', ''float32''}"
    then show "?B = Inl Unsupported_datatype" by (rule build_unsupported)
  qed
next
  fix out
  assume "dtype \<notin> {''float16'', ''bfloat16'', ''float32''}"
  from build_unsupported [OF this]
  show "build_heatmap_and_regressed_features gaussian_radius lbls output_size
         input_size num_classes max_num_instances use_gaussian_bump gaussian_rad gaussian_iou
         class_offset dtype \<noteq> Inr out"
    by simp
next
  assume v: "valid_call lbls output_size input_size num_classes max_num_instances
      use_gaussian_bump class_offset dtype"
  then show "\<exists>out. build_heatmap_and_regressed_features gaussian_radius lbls output_size
         input_size num_classes max_num_instances use_gaussian_bump gaussian_rad gaussian_iou
         class_offset dtype = Inr out"
    by (rule build_returns)
qed

theorem precision_error_iff_witness:
  "build_heatmap_and_regressed_features unit_radius fixture_labels (128, 128) (512, 512)
     90 128 True (- 1) (7 / 10) 0 ''float64'' = Inl Unsupported_datatype \<and>
   build_heatmap_and_regressed_features unit_radius fixture_labels (128, 128) (512, 512)
     90 128 True (- 1) (7 / 10) 0 ''float32'' \<noteq> Inl Unsupported_datatype \<and>
   (\<exists>out. build_heatmap_and_regressed_features unit_radius fixture_labels (128, 128)
      (512, 512) 90 128 True (- 1) (7 / 10) 0 ''float32'' = Inr out)"
proof -
  note v = fixture_valid_gaussian
  have "build_heatmap_and_regressed_features unit_radius fixture_labels (128, 128) (512, 512)
     90 128 True (- 1) (7 / 10) 0 ''float64'' = Inl Unsupported_datatype"
    using precision_error_iff [of unit_radius fixture_labels "(128, 128)" "(512, 512)"
        90 128 True "- 1" "7 / 10" 0 "''float64''"]
    by simp
  moreover have "build_heatmap_and_regressed_features unit_radius fixture_labels (128, 128)
     (512, 512) 90 128 True (- 1) (7 / 10) 0 ''float32'' \<noteq> Inl Unsupported_datatype"
    using precision_error_iff [of unit_radius fixture_labels "(128, 128)" "(512, 512)"
        90 128 True "- 1" "7 / 10" 0 "''float32''"]
    by simp
  moreover have "\<exists>out. build_heatmap_and_regressed_features unit_radius fixture_labels
      (128, 128) (512, 512) 90 128 True (- 1) (7 / 10) 0 ''float32'' = Inr out"
    using precision_error_iff [of unit_radius fixture_labels "(128, 128)" "(512, 512)"
        90 128 True "- 1" "7 / 10" 0 "''float32''"] v
    by blast
  ultimately show ?thesis by blast
qed

subsection \<open>C1: the mask and the padding rows\<close>

text \<open>
  Claim C1. On every valid call the builder returns a bundle whose four per-instance
  arrays have \<open>max_num_instances\<close> rows, in which \<open>box_mask[i] = 1\<close> exactly for the rows
  \<open>i < num_detections\<close>, and every row \<open>i \<ge> num_detections\<close> of the mask, the offsets, the
  sizes and the indices still holds its initial zero: the writes are confined to the
  rows below \<open>num_detections\<close>.
\<close>

theorem mask_iff_valid_row:
  assumes v: "valid_call lbls output_size input_size num_classes max_num_instances
                use_gaussian_bump class_offset dtype"
  shows "\<exists>out. build_heatmap_and_regressed_features gaussian_radius lbls output_size
           input_size num_classes max_num_instances use_gaussian_bump gaussian_rad
           gaussian_iou class_offset dtype = Inr out \<and>
         length (box_mask out) = max_num_instances \<and>
         length (ct_offset out) = max_num_instances \<and>
         length (size_hw out) = max_num_instances \<and>
         length (box_indices out) = max_num_instances \<and>
         (\<forall>i<max_num_instances.
            (box_mask out ! i = 1 \<longleftrightarrow> int i < num_detections lbls) \<and>
            (\<not> int i < num_detections lbls \<longrightarrow>
               box_mask out ! i = 0 \<and> ct_offset out ! i = (0, 0) \<and>
               size_hw out ! i = (0, 0) \<and> box_indices out ! i = (0, 0)))"
proof -
  from v obtain dt where p: "parse_dtype dtype = Inr dt" by (rule valid_call_dtype)
  from build_returns [OF v] obtain out where
    r: "build_heatmap_and_regressed_features gaussian_radius lbls output_size
           input_size num_classes max_num_instances use_gaussian_bump gaussian_rad
           gaussian_iou class_offset dtype = Inr out"
    by blast
  note pad = build_padding [OF v r]
  have rows: "(box_mask out ! i = 1 \<longleftrightarrow> int i < num_detections lbls) \<and>
            (\<not> int i < num_detections lbls \<longrightarrow>
               box_mask out ! i = 0 \<and> ct_offset out ! i = (0, 0) \<and>
               size_hw out ! i = (0, 0) \<and> box_indices out ! i = (0, 0))"
    if i: "i < max_num_instances" for i
  proof (cases "int i < num_detections lbls")
    case True
    then have "i < nat (num_detections lbls)" by simp
    from build_rows(3) [OF p v this r] True show ?thesis by simp
  next
    case False
    from pad(5) [OF i False] False show ?thesis by simp
  qed
  from r pad(1-4) rows show ?thesis by blast
qed

theorem mask_iff_valid_row_witness:
  "\<exists>out. build_heatmap_and_regressed_features unit_radius fixture_labels (128, 128)
      (512, 512) 90 128 True (- 1) (7 / 10) 0 ''float32'' = Inr out \<and>
     length (box_mask out) = 128 \<and>
     box_mask out ! 2 = 1 \<and> box_mask out ! 3 = 0 \<and>
     ct_offset out ! 3 = (0, 0) \<and> size_hw out ! 3 = (0, 0) \<and>
     box_indices out ! 3 = (0, 0)"
proof -
  from mask_iff_valid_row [OF fixture_valid_gaussian, of unit_radius "- 1" "7 / 10"]
  obtain out where
    r: "build_heatmap_and_regressed_features unit_radius fixture_labels (128, 128)
      (512, 512) 90 128 True (- 1) (7 / 10) 0 ''float32'' = Inr out"
    and len: "length (box_mask out) = 128"
    and rows: "\<forall>i<128.
            (box_mask out ! i = 1 \<longleftrightarrow> int i < num_detections fixture_labels) \<and>
            (\<not> int i < num_detections fixture_labels \<longrightarrow>
               box_mask out ! i = 0 \<and> ct_offset out ! i = (0, 0) \<and>
               size_hw out ! i = (0, 0) \<and> box_indices out ! i = (0, 0))"
    by blast
  have n: "num_detections fixture_labels = 3" by (simp add: fixture_labels_def)
  from rows have "box_mask out ! 2 = 1"
    and "box_mask out ! 3 = 0 \<and> ct_offset out ! 3 = (0, 0) \<and>
         size_hw out ! 3 = (0, 0) \<and> box_indices out ! 3 = (0, 0)"
    unfolding n by simp_all
  with r len show ?thesis by blast
qed

subsection \<open>C2: the box of the fixture\<close>

text \<open>
  Claim C2, as the specification states it, gives the box \<open>(10, 300, 15, 370)\<close>, scaled
  from \<open>512 \<times> 512\<close> to \<open>128 \<times> 128\<close>, the scaled centre \<open>x = 16.75\<close> and the index \<open>(3, 16)\<close>.
  The source, run as the module runs it (in \<open>float32\<close>), computes
  \<open>x = (300 + 370) / 2 \<cdot> 0.25 = 83.75\<close> and the index \<open>(3, 83)\<close>.
\<close>

theorem fixture_center_counterexample:
  "scale_xct Float32 (width_ratio Float32 (128, 128) (512, 512))
     (cast_box Float32 (10, 300, 15, 370)) = 335 / 4 \<and>
   scale_xct Float32 (width_ratio Float32 (128, 128) (512, 512))
     (cast_box Float32 (10, 300, 15, 370)) \<noteq> 67 / 4 \<and>
   box_index_values Float32 (height_ratio Float32 (128, 128) (512, 512))
     (width_ratio Float32 (128, 128) (512, 512)) (cast_box Float32 (10, 300, 15, 370)) =
     (3, 83) \<and>
   box_index_values Float32 (height_ratio Float32 (128, 128) (512, 512))
     (width_ratio Float32 (128, 128) (512, 512)) (cast_box Float32 (10, 300, 15, 370)) \<noteq>
     (3, 16)"
  by (simp add: fixture_sizes fixture_box)

text \<open>
  In \<open>bfloat16\<close> the sum \<open>300 + 370\<close> is rounded to \<open>672\<close>: there the scaled centre of the
  same box is \<open>x = 84\<close> and the index is \<open>(3, 84)\<close>. The amended claim is stated for the
  two kinds that hold every value of this computation exactly.
\<close>

lemma fixture_center_bfloat16:
  "scale_xct Bfloat16 (width_ratio Bfloat16 (128, 128) (512, 512))
     (cast_box Bfloat16 (10, 300, 15, 370)) = 84"
proof -
  have e: "rnd Bfloat16 (real_of_int m / 2 ^ k) = real_of_int m / 2 ^ k"
    if "\<bar>m\<bar> < 256" "k \<le> 100" for m k
    using that by (intro rnd_dyadic) simp_all
  have v: "rnd Bfloat16 128 = 128" "rnd Bfloat16 (1 / 4) = 1 / 4" "rnd Bfloat16 84 = 84"
    using e [of 128 0] e [of 1 2] e [of 84 0] by simp_all
  have "rnd Bfloat16 512 = 512" "rnd Bfloat16 300 = 300" "rnd Bfloat16 370 = 370"
    "rnd Bfloat16 336 = 336"
    using rnd_eval [of 9 512 Bfloat16] rnd_eval [of 8 300 Bfloat16]
      rnd_eval [of 8 370 Bfloat16] rnd_eval [of 8 336 Bfloat16]
    by (simp_all add: round_half_even_def)
  then show ?thesis
    by (simp add: scale_xct_def xct_def width_ratio_def cast_size_def cast_box_def v
        rnd_bfloat16_670)
qed

text \<open>
  Claim C2, amended. In \<open>float16\<close> and in \<open>float32\<close>, for the box \<open>(10, 300, 15, 370)\<close> at a
  valid row \<open>k\<close> of a record built from a \<open>512 \<times> 512\<close> input to a \<open>128 \<times> 128\<close> output, the
  scaled centre is \<open>(xct, yct) = (83.75, 3.125)\<close>, the row of \<open>box_indices\<close> is \<open>(3, 83)\<close>,
  the offset is \<open>(0.125, 0.75)\<close>, the size is \<open>(1.25, 17.5)\<close> and the mask entry is \<open>1\<close>.
\<close>

theorem fixture_box_targets:
  assumes d: "dtype \<in> {''float16'', ''float32''}"
    and p: "parse_dtype dtype = Inr dt"
    and v: "valid_call lbls (128, 128) (512, 512) num_classes max_num_instances
                use_gaussian_bump class_offset dtype"
    and k: "k < nat (num_detections lbls)"
    and b: "bbox lbls ! k = (10, 300, 15, 370)"
  shows "\<exists>out. build_heatmap_and_regressed_features gaussian_radius lbls (128, 128)
           (512, 512) num_classes max_num_instances use_gaussian_bump gaussian_rad
           gaussian_iou class_offset dtype = Inr out \<and>
         scale_xct dt (width_ratio dt (128, 128) (512, 512)) (cast_box dt (bbox lbls ! k)) =
           335 / 4 \<and>
         scale_yct dt (height_ratio dt (128, 128) (512, 512)) (cast_box dt (bbox lbls ! k)) =
           25 / 8 \<and>
         box_indices out ! k = (3, 83) \<and>
         ct_offset out ! k = (1 / 8, 3 / 4) \<and>
         size_hw out ! k = (5 / 4, 35 / 2) \<and>
         box_mask out ! k = 1"
proof -
  from d p have nb: "dt \<noteq> Bfloat16"
    by (auto simp: parse_dtype_def)
  from build_returns [OF v] obtain out where
    r: "build_heatmap_and_regressed_features gaussian_radius lbls (128, 128)
           (512, 512) num_classes max_num_instances use_gaussian_bump gaussian_rad
           gaussian_iou class_offset dtype = Inr out"
    by blast
  note rows = build_rows [OF p v k r]
  note sz = fixture_sizes [OF nb] and bx = fixture_box [OF nb]
  have sx: "scale_xct dt (width_ratio dt (128, 128) (512, 512)) (cast_box dt (bbox lbls ! k)) =
      335 / 4"
    by (simp add: b sz bx)
  have sy: "scale_yct dt (height_ratio dt (128, 128) (512, 512)) (cast_box dt (bbox lbls ! k)) =
      25 / 8"
    by (simp add: b sz bx)
  have ind: "box_indices out ! k = (3, 83)"
    by (simp add: rows(4) b sz bx)
  have off: "ct_offset out ! k = (1 / 8, 3 / 4)"
    by (simp add: rows(1) b sz bx)
  have s: "size_hw out ! k = (5 / 4, 35 / 2)"
    by (simp add: rows(2) b sz bx)
  from r sx sy ind off s rows(3) show ?thesis by blast
qed

theorem fixture_box_targets_witness:
  "\<exists>out. build_heatmap_and_regressed_features unit_radius fixture_labels (128, 128)
      (512, 512) 90 128 True (- 1) (7 / 10) 0 ''float32'' = Inr out \<and>
     box_indices out ! 0 = (3, 83) \<and>
     ct_offset out ! 0 = (1 / 8, 3 / 4) \<and>
     size_hw out ! 0 = (5 / 4, 35 / 2) \<and>
     box_mask out ! 0 = 1"
proof -
  have d: "''float32'' \<in> {''float16'', ''float32''}" by simp
  have p: "parse_dtype ''float32'' = Inr Float32" by (simp add: parse_dtype_def)
  have k: "0 < nat (num_detections fixture_labels)"
    by (simp add: fixture_labels_def)
  have b: "bbox fixture_labels ! 0 = (10, 300, 15, 370)"
    by (simp add: fixture_labels_def)
  from fixture_box_targets [OF d p fixture_valid_gaussian k b, of unit_radius "- 1" "7 / 10"]
  show ?thesis by blast
qed

subsection \<open>C10: index plus offset is the scaled centre\<close>

text \<open>
  The fractional part of a non-negative number of the kind is a number of the kind,
  so the subtraction of line 130 is exact there; the \<open>int32\<close> cast of line 219 is exact
  on a floor below \<open>2\<^sup>3\<^sup>1\<close>.
\<close>

lemma rnd_frac_exact:
  assumes "0 \<le> rnd dt z"
  shows "rnd dt (rnd dt z - real_of_int \<lfloor>rnd dt z\<rfloor>) = rnd dt z - real_of_int \<lfloor>rnd dt z\<rfloor>"
  by (rule rnd_exact [OF representable_frac [OF representable_rnd assms]])

lemma cast_int32_floor:
  assumes "0 \<le> s" "s < 2 ^ 31"
  shows "cast_int32 (real_of_int \<lfloor>s\<rfloor>) = \<lfloor>s\<rfloor>"
proof (rule cast_int32_of_int)
  from assms(1) have "0 \<le> \<lfloor>s\<rfloor>" by simp
  then show "- (2 ^ 31) \<le> \<lfloor>s\<rfloor>" by simp
  from assms(2) show "\<lfloor>s\<rfloor> < 2 ^ 31" by (simp add: floor_less_iff)
qed

text \<open>
  A box whose top edge is \<open>-2\<^sup>-\<^sup>3\<^sup>0\<close>, in \<open>float32\<close>, from a \<open>512 \<times> 512\<close> input to a
  \<open>128 \<times> 128\<close> output: the scaled centre is \<open>y = -2\<^sup>-\<^sup>3\<^sup>3\<close>, its floor is \<open>-1\<close>, and the
  difference \<open>1 - 2\<^sup>-\<^sup>3\<^sup>3\<close> is rounded to \<open>1\<close>.
\<close>

lemma rnd_float32_below_one: "rnd Float32 (8589934591 / 8589934592) = 1"
  using rnd_eval [of "- 1" "8589934591 / 8589934592" Float32]
  by (simp add: round_half_even_def)

lemma tiny_negative_box:
  "cast_box Float32 (- (1 / 1073741824), 0, 0, 0) = (- (1 / 1073741824), 0, 0, 0)"
  "scale_yct Float32 (1 / 4) (- (1 / 1073741824), 0, 0, 0) = - (1 / 8589934592)"
  "ct_offset_values Float32 (1 / 4) (1 / 4) (- (1 / 1073741824), 0, 0, 0) = (1, 0)"
  "box_index_values Float32 (1 / 4) (1 / 4) (- (1 / 1073741824), 0, 0, 0) = (- 1, 0)"
proof -
  have r: "rnd Float32 (- (1 / 1073741824)) = - (1 / 1073741824)"
    "rnd Float32 (- (1 / 2147483648)) = - (1 / 2147483648)"
    "rnd Float32 (- (1 / 8589934592)) = - (1 / 8589934592)"
    using rnd_dyadic [of "- 1" Float32 30] rnd_dyadic [of "- 1" Float32 31]
      rnd_dyadic [of "- 1" Float32 33]
    by simp_all
  show "cast_box Float32 (- (1 / 1073741824), 0, 0, 0) = (- (1 / 1073741824), 0, 0, 0)"
    by (simp add: cast_box_def r)
  show y: "scale_yct Float32 (1 / 4) (- (1 / 1073741824), 0, 0, 0) = - (1 / 8589934592)"
    by (simp add: scale_yct_def yct_def r)
  have x: "scale_xct Float32 (1 / 4) (- (1 / 1073741824), 0, 0, 0) = 0"
    by (simp add: scale_xct_def xct_def)
  show "ct_offset_values Float32 (1 / 4) (1 / 4) (- (1 / 1073741824), 0, 0, 0) = (1, 0)"
    by (simp add: ct_offset_values_def scale_yct_floor_def scale_xct_floor_def x y
        rnd_float32_below_one)
  show "box_index_values Float32 (1 / 4) (1 / 4) (- (1 / 1073741824), 0, 0, 0) = (- 1, 0)"
    using cast_int32_of_int [of "- 1"]
    by (simp add: box_index_values_def scale_yct_floor_def scale_xct_floor_def x y)
qed

text \<open>
  Claim C10, as the specification states it, makes the index row plus the offset row
  the scaled centre, and every offset a number of \<open>[0, 1)\<close>, for every valid instance.
  For the box above the builder returns the index \<open>-1\<close> and the offset \<open>1\<close> in the first
  component: the offset is not below \<open>1\<close>, and index plus offset is \<open>0\<close>, not the scaled
  centre \<open>-2\<^sup>-\<^sup>3\<^sup>3\<close>.
\<close>

theorem offset_one_counterexample:
  "\<not> isl (build_heatmap_and_regressed_features unit_radius
            \<lparr>bbox = [(- (1 / 2 ^ 30), 0, 0, 0)], classes = [0], num_detections = 1\<rparr>
            (128, 128) (512, 512) 90 128 True (- 1) (7 / 10) 0 ''float32'') \<and>
   fst (ct_offset (projr (build_heatmap_and_regressed_features unit_radius
            \<lparr>bbox = [(- (1 / 2 ^ 30), 0, 0, 0)], classes = [0], num_detections = 1\<rparr>
            (128, 128) (512, 512) 90 128 True (- 1) (7 / 10) 0 ''float32'')) ! 0) = 1 \<and>
   fst (box_indices (projr (build_heatmap_and_regressed_features unit_radius
            \<lparr>bbox = [(- (1 / 2 ^ 30), 0, 0, 0)], classes = [0], num_detections = 1\<rparr>
            (128, 128) (512, 512) 90 128 True (- 1) (7 / 10) 0 ''float32'')) ! 0) = - 1 \<and>
   scale_yct Float32 (height_ratio Float32 (128, 128) (512, 512))
     (cast_box Float32 (- (1 / 2 ^ 30), 0, 0, 0)) = - (1 / 2 ^ 33) \<and>
   yct Float32 (cast_box Float32 (- (1 / 2 ^ 30), 0, 0, 0)) *
     height_ratio Float32 (128, 128) (512, 512) = - (1 / 2 ^ 33)"
proof -
  let ?L = "\<lparr>bbox = [(- (1 / 1073741824), 0, 0, 0)], classes = [0], num_detections = 1\<rparr>"
  have nb: "Float32 \<noteq> Bfloat16" by simp
  note sz = fixture_sizes [OF nb]
  have p: "parse_dtype ''float32'' = Inr Float32" by (simp add: parse_dtype_def)
  have v: "valid_call ?L (128, 128) (512, 512) 90 128 True 0 ''float32''"
    by (simp add: valid_call_def p sz)
  have pos: "0 < num_detections ?L" by simp
  note eq = build_pos [OF p v pos, of unit_radius "- 1" "7 / 10"]
  have r: "rnd Float32 (- (1 / 1073741824)) = - (1 / 1073741824)"
    "rnd Float32 (- (1 / 2147483648)) = - (1 / 2147483648)"
    using rnd_dyadic [of "- 1" Float32 30] rnd_dyadic [of "- 1" Float32 31]
    by simp_all
  have c: "yct Float32 (- (1 / 1073741824), 0, 0, 0) = - (1 / 2147483648)"
    by (simp add: yct_def r)
  show ?thesis
    by (simp add: eq sz tiny_negative_box c)
qed

text \<open>
  Claim C10, amended. For every valid row \<open>k < num_detections\<close> whose scaled centre, as
  the source computes it in the selected kind (\<open>scale_yct\<close> and \<open>scale_xct\<close> of lines
  119-120, in finite arithmetic), is non-negative and below \<open>2\<^sup>3\<^sup>1\<close> in both components,
  the row of \<open>box_indices\<close> plus the row of \<open>ct_offset\<close> is that scaled centre, component
  by component, and both components of the offset lie in \<open>[0, 1)\<close>.
\<close>

theorem index_plus_offset_is_center:
  assumes p: "parse_dtype dtype = Inr dt"
    and v: "valid_call lbls output_size input_size num_classes max_num_instances
                use_gaussian_bump class_offset dtype"
    and k: "k < nat (num_detections lbls)"
    and y: "0 \<le> scale_yct dt (height_ratio dt output_size input_size)
                   (cast_box dt (bbox lbls ! k))"
           "scale_yct dt (height_ratio dt output_size input_size)
                   (cast_box dt (bbox lbls ! k)) < 2 ^ 31"
    and x: "0 \<le> scale_xct dt (width_ratio dt output_size input_size)
                   (cast_box dt (bbox lbls ! k))"
           "scale_xct dt (width_ratio dt output_size input_size)
                   (cast_box dt (bbox lbls ! k)) < 2 ^ 31"
  shows "\<exists>out. build_heatmap_and_regressed_features gaussian_radius lbls output_size
           input_size num_classes max_num_instances use_gaussian_bump gaussian_rad
           gaussian_iou class_offset dtype = Inr out \<and>
         real_of_int (fst (box_indices out ! k)) + fst (ct_offset out ! k) =
           scale_yct dt (height_ratio dt output_size input_size)
             (cast_box dt (bbox lbls ! k)) \<and>
         real_of_int (snd (box_indices out ! k)) + snd (ct_offset out ! k) =
           scale_xct dt (width_ratio dt output_size input_size)
             (cast_box dt (bbox lbls ! k)) \<and>
         0 \<le> fst (ct_offset out ! k) \<and> fst (ct_offset out ! k) < 1 \<and>
         0 \<le> snd (ct_offset out ! k) \<and> snd (ct_offset out ! k) < 1"
proof -
  from build_returns [OF v] obtain out where
    r: "build_heatmap_and_regressed_features gaussian_radius lbls output_size
           input_size num_classes max_num_instances use_gaussian_bump gaussian_rad
           gaussian_iou class_offset dtype = Inr out"
    by blast
  let ?b = "cast_box dt (bbox lbls ! k)"
  let ?hr = "height_ratio dt output_size input_size"
  let ?wr = "width_ratio dt output_size input_size"
  let ?sy = "scale_yct dt ?hr ?b" and ?sx = "scale_xct dt ?wr ?b"
  have off: "ct_offset out ! k = ct_offset_values dt ?hr ?wr ?b"
    and ind: "box_indices out ! k = box_index_values dt ?hr ?wr ?b"
    using build_rows(1,4) [OF p v k r] by simp_all
  have fy: "rnd dt (?sy - real_of_int \<lfloor>?sy\<rfloor>) = ?sy - real_of_int \<lfloor>?sy\<rfloor>"
    using y(1) unfolding scale_yct_def by (rule rnd_frac_exact)
  have fx: "rnd dt (?sx - real_of_int \<lfloor>?sx\<rfloor>) = ?sx - real_of_int \<lfloor>?sx\<rfloor>"
    using x(1) unfolding scale_xct_def by (rule rnd_frac_exact)
  have iy: "cast_int32 (real_of_int \<lfloor>?sy\<rfloor>) = \<lfloor>?sy\<rfloor>"
    by (rule cast_int32_floor [OF y])
  have ix: "cast_int32 (real_of_int \<lfloor>?sx\<rfloor>) = \<lfloor>?sx\<rfloor>"
    by (rule cast_int32_floor [OF x])
  have oy: "fst (ct_offset out ! k) = ?sy - real_of_int \<lfloor>?sy\<rfloor>"
    by (simp add: off ct_offset_values_def scale_yct_floor_def fy)
  have ox: "snd (ct_offset out ! k) = ?sx - real_of_int \<lfloor>?sx\<rfloor>"
    by (simp add: off ct_offset_values_def scale_xct_floor_def fx)
  have jy: "fst (box_indices out ! k) = \<lfloor>?sy\<rfloor>"
    by (simp add: ind box_index_values_def scale_yct_floor_def iy)
  have jx: "snd (box_indices out ! k) = \<lfloor>?sx\<rfloor>"
    by (simp add: ind box_index_values_def scale_xct_floor_def ix)
  have sumy: "real_of_int (fst (box_indices out ! k)) + fst (ct_offset out ! k) = ?sy"
    unfolding oy jy by simp
  have sumx: "real_of_int (snd (box_indices out ! k)) + snd (ct_offset out ! k) = ?sx"
    unfolding ox jx by simp
  have by1: "0 \<le> fst (ct_offset out ! k) \<and> fst (ct_offset out ! k) < 1"
    unfolding oy by linarith
  have bx1: "0 \<le> snd (ct_offset out ! k) \<and> snd (ct_offset out ! k) < 1"
    unfolding ox by linarith
  from r sumy sumx by1 bx1 show ?thesis by blast
qed

theorem index_plus_offset_is_center_witness:
  "\<exists>out. build_heatmap_and_regressed_features unit_radius fixture_labels (128, 128)
      (512, 512) 90 128 True (- 1) (7 / 10) 0 ''float32'' = Inr out \<and>
     real_of_int (fst (box_indices out ! 0)) + fst (ct_offset out ! 0) = 25 / 8 \<and>
     real_of_int (snd (box_indices out ! 0)) + snd (ct_offset out ! 0) = 335 / 4 \<and>
     0 \<le> fst (ct_offset out ! 0) \<and> fst (ct_offset out ! 0) < 1 \<and>
     0 \<le> snd (ct_offset out ! 0) \<and> snd (ct_offset out ! 0) < 1"
proof -
  have nb: "Float32 \<noteq> Bfloat16" by simp
  note sz = fixture_sizes [OF nb] and bx = fixture_box [OF nb]
  have p: "parse_dtype ''float32'' = Inr Float32" by (simp add: parse_dtype_def)
  have k: "0 < nat (num_detections fixture_labels)"
    by (simp add: fixture_labels_def)
  have b: "bbox fixture_labels ! 0 = (10, 300, 15, 370)"
    by (simp add: fixture_labels_def)
  have y: "scale_yct Float32 (height_ratio Float32 (128, 128) (512, 512))
             (cast_box Float32 (bbox fixture_labels ! 0)) = 25 / 8"
    by (simp add: b sz bx)
  have x: "scale_xct Float32 (width_ratio Float32 (128, 128) (512, 512))
             (cast_box Float32 (bbox fixture_labels ! 0)) = 335 / 4"
    by (simp add: b sz bx)
  have h: "(0::real) \<le> 25 / 8" "(25 / 8 :: real) < 2 ^ 31"
    "(0::real) \<le> 335 / 4" "(335 / 4 :: real) < 2 ^ 31"
    by simp_all
  from index_plus_offset_is_center [OF p fixture_valid_gaussian k, unfolded x y, OF h,
      of unit_radius "- 1" "7 / 10"]
  show ?thesis .
qed

subsection \<open>C7: the radius of an instance\<close>



subsection \<open>C9: the heatmap without the Gaussian\<close>

text \<open>
  The cell of an instance is computed in the selected kind. In \<open>float32\<close>, from a
  \<open>164 \<times> 164\<close> input to a \<open>128 \<times> 128\<close> output, the ratio \<open>128 / 164\<close> is rounded down, and
  the centre \<open>41\<close> is scaled to \<open>16777215 / 2\<^sup>1\<^sup>9\<close>, just below \<open>32\<close>: its row is \<open>31\<close>.
\<close>

lemma center_41_float32:
  "height_ratio Float32 (128, 128) (164, 164) = 3273603 / 4194304"
  "scale_yct Float32 (height_ratio Float32 (128, 128) (164, 164))
     (cast_box Float32 (41, 41, 41, 41)) = 16777215 / 524288"
  "scale_yct_floor Float32 (height_ratio Float32 (128, 128) (164, 164))
     (cast_box Float32 (41, 41, 41, 41)) = 31"
proof -
  have i: "rnd Float32 41 = 41" "rnd Float32 82 = 82" "rnd Float32 128 = 128"
    "rnd Float32 164 = 164"
    by (simp_all add: rnd_numeral)
  have q: "rnd Float32 (32 / 41) = 3273603 / 4194304"
    using rnd_eval [of "- 1" "32 / 41" Float32] by (simp add: round_half_even_def)
  have s: "rnd Float32 (134217723 / 4194304) = 16777215 / 524288"
    using rnd_eval [of 4 "134217723 / 4194304" Float32] by (simp add: round_half_even_def)
  show h: "height_ratio Float32 (128, 128) (164, 164) = 3273603 / 4194304"
    by (simp add: height_ratio_def cast_size_def i q)
  show y: "scale_yct Float32 (height_ratio Float32 (128, 128) (164, 164))
     (cast_box Float32 (41, 41, 41, 41)) = 16777215 / 524288"
    by (simp add: h scale_yct_def yct_def cast_box_def i s)
  show "scale_yct_floor Float32 (height_ratio Float32 (128, 128) (164, 164))
     (cast_box Float32 (41, 41, 41, 41)) = 31"
    by (simp add: scale_yct_floor_def y)
qed



subsection \<open>C5: the values of the heatmap\<close>

text \<open>
  Claim C5. On every valid call, with the Gaussian or without it, every cell of the
  returned heatmap lies in \<open>[0, 1]\<close>; a cell that no instance covers (it is in no
  instance's window, or it is no instance's own cell) is exactly \<open>0\<close>; and with the
  Gaussian a cell is the maximum of the contributions of the instances.
\<close>

theorem heatmap_unit_interval:
  assumes p: "parse_dtype dtype = Inr dt"
    and v: "valid_call lbls output_size input_size num_classes max_num_instances
                use_gaussian_bump class_offset dtype"
  shows "\<exists>out. build_heatmap_and_regressed_features gaussian_radius lbls output_size
           input_size num_classes max_num_instances use_gaussian_bump gaussian_rad
           gaussian_iou class_offset dtype = Inr out \<and>
         (\<forall>i<fst (heatmap_size dt output_size). \<forall>j<snd (heatmap_size dt output_size).
            \<forall>c<num_classes.
            0 \<le> cell (ct_heatmaps out) i j c \<and> cell (ct_heatmaps out) i j c \<le> 1 \<and>
            (\<not> covered dt gaussian_radius lbls output_size input_size use_gaussian_bump
                 gaussian_rad gaussian_iou class_offset i j c \<longrightarrow>
               cell (ct_heatmaps out) i j c = 0) \<and>
            (use_gaussian_bump \<longrightarrow> 0 < num_detections lbls \<longrightarrow>
               cell (ct_heatmaps out) i j c =
                 Max ((\<lambda>inst. gaussian_value
                        (blob_of dt gaussian_radius (height_ratio dt output_size input_size)
                           (width_ratio dt output_size input_size) gaussian_rad gaussian_iou
                           class_offset inst) i j c) ` set (instances lbls))))"
proof (cases "0 < num_detections lbls")
  case False
  from v have sh: "0 \<le> output_h dt output_size" "0 \<le> output_w dt output_size"
    by (simp_all add: valid_call_def p)
  from False have "num_detections lbls \<le> 0" by simp
  note eq = build_nonpos [OF p sh this, of gaussian_radius input_size num_classes
      max_num_instances use_gaussian_bump gaussian_rad gaussian_iou class_offset]
  show ?thesis
    unfolding eq using False by (simp add: cell_zeros3 heatmap_size_def)
next
  case True
  let ?hr = "height_ratio dt output_size input_size"
  let ?wr = "width_ratio dt output_size input_size"
  let ?f = "\<lambda>i j c inst. gaussian_value
      (blob_of dt gaussian_radius ?hr ?wr gaussian_rad gaussian_iou class_offset inst) i j c"
  let ?idxs = "map (hm_index dt ?hr ?wr class_offset) (instances lbls)"
  note eq = build_pos [OF p v True, of gaussian_radius gaussian_rad gaussian_iou]
  from v True have ne: "instances lbls \<noteq> []"
    by (auto simp: valid_call_def p instances_zip zip_eq_Nil_iff)
  show ?thesis
  proof (cases use_gaussian_bump)
    case g: True
    have bounds: "0 \<le> Max (?f i j c ` set (instances lbls)) \<and>
        Max (?f i j c ` set (instances lbls)) \<le> 1" for i j c
      by (rule Max_image_bounds [OF ne]) (rule gaussian_value_bounds)
    have zero: "Max (?f i j c ` set (instances lbls)) = 0"
      if "\<not> covered dt gaussian_radius lbls output_size input_size use_gaussian_bump
                 gaussian_rad gaussian_iou class_offset i j c" for i j c
    proof (rule Max_image_const [OF ne])
      fix inst assume "inst \<in> set (instances lbls)"
      with that g True
      have "\<not> in_window (blob_of dt gaussian_radius ?hr ?wr gaussian_rad gaussian_iou
                 class_offset inst) i j c"
        by (auto simp: covered_def list_ex_iff)
      then show "?f i j c inst = 0" by (rule gaussian_value_outside)
    qed
    show ?thesis
      unfolding eq using g bounds zero by (simp add: cell_tabulate3 heatmap_size_def)
  next
    case s: False
    have cov: "covered dt gaussian_radius lbls output_size input_size False
                 gaussian_rad gaussian_iou class_offset i j c \<longleftrightarrow>
               (int i, int j, int c) \<in> set ?idxs" for i j c
      using True by (simp add: covered_def)
    show ?thesis
      unfolding eq using s by (simp add: cell_tabulate3 cov heatmap_size_def del: set_map)
  qed
qed

theorem heatmap_unit_interval_witness:
  "\<exists>out. build_heatmap_and_regressed_features unit_radius
      \<lparr>bbox = [(10, 300, 15, 370)], classes = [1], num_detections = 1\<rparr> (128, 128)
      (512, 512) 90 128 True (- 1) (7 / 10) 0 ''float32'' = Inr out \<and>
     0 \<le> cell (ct_heatmaps out) 3 84 1 \<and> cell (ct_heatmaps out) 3 84 1 \<le> 1 \<and>
     cell (ct_heatmaps out) 3 83 1 = 1 \<and>
     cell (ct_heatmaps out) 3 83 0 = 0"
proof -
  let ?L = "\<lparr>bbox = [(10, 300, 15, 370)], classes = [1], num_detections = 1\<rparr>"
  have nb: "Float32 \<noteq> Bfloat16" by simp
  note sz = fixture_sizes [OF nb] and bx = fixture_box [OF nb]
  have p: "parse_dtype ''float32'' = Inr Float32" by (simp add: parse_dtype_def)
  have hs: "heatmap_size Float32 (128, 128) = (128, 128)"
    by (simp add: heatmap_size_def sz)
  have v: "valid_call ?L (128, 128) (512, 512) 90 128 True 0 ''float32''"
    by (simp add: valid_call_def p sz)
  have inst: "instances ?L = [((10, 300, 15, 370), 1)]"
    by (simp add: instances_def)
  have blob: "blob_of Float32 unit_radius (1 / 4) (1 / 4) (- 1) (7 / 10) 0
                ((10, 300, 15, 370), 1) = (1, 3, 83, 1)"
    by (simp add: blob_of_def radius_of_def unit_radius_def cast_class_def bx)
  have uncovered: "\<not> covered Float32 unit_radius ?L (128, 128) (512, 512) True (- 1)
      (7 / 10) 0 3 83 0"
    by (simp add: covered_def inst sz blob in_window_def)
  from heatmap_unit_interval [OF p v, of unit_radius "- 1" "7 / 10"]
  obtain out where
    r: "build_heatmap_and_regressed_features unit_radius ?L (128, 128)
      (512, 512) 90 128 True (- 1) (7 / 10) 0 ''float32'' = Inr out"
    and cells: "\<forall>i<128. \<forall>j<128. \<forall>c<90.
            0 \<le> cell (ct_heatmaps out) i j c \<and> cell (ct_heatmaps out) i j c \<le> 1 \<and>
            (\<not> covered Float32 unit_radius ?L (128, 128) (512, 512) True (- 1)
                 (7 / 10) 0 i j c \<longrightarrow>
               cell (ct_heatmaps out) i j c = 0) \<and>
            (0 < num_detections ?L \<longrightarrow>
               cell (ct_heatmaps out) i j c =
                 Max ((\<lambda>inst. gaussian_value
                        (blob_of Float32 unit_radius (1 / 4) (1 / 4) (- 1) (7 / 10) 0 inst)
                        i j c) ` set (instances ?L)))"
    unfolding hs sz fst_conv snd_conv by auto
  have lt: "(3::nat) < 128" "(84::nat) < 128" "(1::nat) < 90" "(83::nat) < 128" "(0::nat) < 90"
    by simp_all
  have pos: "0 < num_detections ?L" by simp
  from cells [rule_format, OF lt(1) lt(2) lt(3)]
  have "0 \<le> cell (ct_heatmaps out) 3 84 1 \<and> cell (ct_heatmaps out) 3 84 1 \<le> 1"
    by blast
  moreover from cells [rule_format, OF lt(1) lt(4) lt(5)] uncovered
  have "cell (ct_heatmaps out) 3 83 0 = 0"
    by blast
  moreover from cells [rule_format, OF lt(1) lt(4) lt(3)] pos
  have "cell (ct_heatmaps out) 3 83 1 =
      Max ((\<lambda>inst. gaussian_value
              (blob_of Float32 unit_radius (1 / 4) (1 / 4) (- 1) (7 / 10) 0 inst) 3 83 1) `
           set (instances ?L))"
    by blast
  then have "cell (ct_heatmaps out) 3 83 1 = 1"
    by (simp add: inst blob gaussian_value_def in_window_def)
  ultimately show ?thesis using r by blast
qed

subsection \<open>C6: the order of the instances\<close>

text \<open>
  Claim C6. Let a second record hold a permutation of the first \<open>num_detections\<close>
  instances of a record (boxes with their classes, as multisets of pairs). On a valid
  call both records are built, the two heatmaps are identical, the rows of the
  per-instance arrays that belong to the instances are the same up to their order, and
  the padding rows and the mask are unchanged.
\<close>

theorem heatmap_permutation_invariant:
  assumes v: "valid_call lbls output_size input_size num_classes max_num_instances
                use_gaussian_bump class_offset dtype"
    and n: "num_detections lbls' = num_detections lbls"
    and p: "mset (instances lbls') = mset (instances lbls)"
  shows "\<exists>out out'.
           build_heatmap_and_regressed_features gaussian_radius lbls output_size
             input_size num_classes max_num_instances use_gaussian_bump gaussian_rad
             gaussian_iou class_offset dtype = Inr out \<and>
           build_heatmap_and_regressed_features gaussian_radius lbls' output_size
             input_size num_classes max_num_instances use_gaussian_bump gaussian_rad
             gaussian_iou class_offset dtype = Inr out' \<and>
           ct_heatmaps out' = ct_heatmaps out \<and>
           mset (instance_rows (nat (num_detections lbls)) out') =
             mset (instance_rows (nat (num_detections lbls)) out) \<and>
           drop (nat (num_detections lbls)) (ct_offset out') =
             drop (nat (num_detections lbls)) (ct_offset out) \<and>
           drop (nat (num_detections lbls)) (size_hw out') =
             drop (nat (num_detections lbls)) (size_hw out) \<and>
           drop (nat (num_detections lbls)) (box_indices out') =
             drop (nat (num_detections lbls)) (box_indices out) \<and>
           box_mask out' = box_mask out"
proof -
  from v obtain dt where d: "parse_dtype dtype = Inr dt" by (rule valid_call_dtype)
  note v' = valid_call_permuted [OF v n p]
  from build_returns [OF v] obtain out where
    r: "build_heatmap_and_regressed_features gaussian_radius lbls output_size
             input_size num_classes max_num_instances use_gaussian_bump gaussian_rad
             gaussian_iou class_offset dtype = Inr out"
    by blast
  from build_returns [OF v'] obtain out' where
    r': "build_heatmap_and_regressed_features gaussian_radius lbls' output_size
             input_size num_classes max_num_instances use_gaussian_bump gaussian_rad
             gaussian_iou class_offset dtype = Inr out'"
    by blast
  from p have s: "set (instances lbls') = set (instances lbls)"
    by (rule mset_eq_setD)
  have rest: "ct_heatmaps out' = ct_heatmaps out \<and>
           mset (instance_rows (nat (num_detections lbls)) out') =
             mset (instance_rows (nat (num_detections lbls)) out) \<and>
           drop (nat (num_detections lbls)) (ct_offset out') =
             drop (nat (num_detections lbls)) (ct_offset out) \<and>
           drop (nat (num_detections lbls)) (size_hw out') =
             drop (nat (num_detections lbls)) (size_hw out) \<and>
           drop (nat (num_detections lbls)) (box_indices out') =
             drop (nat (num_detections lbls)) (box_indices out) \<and>
           box_mask out' = box_mask out"
  proof (cases "0 < num_detections lbls")
    case False
    from v have sh: "0 \<le> output_h dt output_size" "0 \<le> output_w dt output_size"
      by (simp_all add: valid_call_def d)
    from False n have z: "num_detections lbls \<le> 0" "num_detections lbls' \<le> 0" by simp_all
    from r r' build_nonpos [OF d sh z(1)] build_nonpos [OF d sh z(2)] have "out' = out"
      by simp
    then show ?thesis by simp
  next
    case True
    with n have True': "0 < num_detections lbls'" by simp
    from v True have nb: "nat (num_detections lbls) \<le> length (bbox lbls)"
      by (simp add: valid_call_def d)
    from v' True' n have nb': "nat (num_detections lbls) \<le> length (bbox lbls')"
      by (simp add: valid_call_def d)
    note eq = build_pos [OF d v True, of gaussian_radius gaussian_rad gaussian_iou]
    note eq' = build_pos [OF d v' True', of gaussian_radius gaussian_rad gaussian_iou]
    have sm: "set (map h (instances lbls')) = set (map h (instances lbls))"
      for h :: "box \<times> int \<Rightarrow> int \<times> int \<times> int"
      by (simp add: s)
    from r eq r' eq' have hm: "ct_heatmaps out' = ct_heatmaps out"
      by (auto simp: s sm simp del: set_map)
    from r eq r' eq' nb nb' n have pad:
      "drop (nat (num_detections lbls)) (ct_offset out') =
         drop (nat (num_detections lbls)) (ct_offset out)"
      "drop (nat (num_detections lbls)) (size_hw out') =
         drop (nat (num_detections lbls)) (size_hw out)"
      "drop (nat (num_detections lbls)) (box_indices out') =
         drop (nat (num_detections lbls)) (box_indices out)"
      "box_mask out' = box_mask out"
      by auto
    have "mset (instance_rows (nat (num_detections lbls)) out') =
             mset (instance_rows (nat (num_detections lbls)) out)"
      unfolding build_instance_rows [OF d v True r]
        build_instance_rows [OF d v' True' r', unfolded n]
      by (simp only: mset_map p)
    with hm pad show ?thesis by simp
  qed
  with r r' show ?thesis by blast
qed

theorem heatmap_permutation_invariant_witness:
  "\<exists>out out'.
     build_heatmap_and_regressed_features unit_radius fixture_labels (128, 128)
       (512, 512) 90 128 True (- 1) (7 / 10) 0 ''float32'' = Inr out \<and>
     build_heatmap_and_regressed_features unit_radius
       \<lparr>bbox = [(100, 300, 150, 370), (10, 300, 15, 370), (15, 100, 200, 170)] @
                replicate 125 (0, 0, 0, 0),
        classes = [1, 1, 1] @ replicate 125 (- 1),
        num_detections = 3\<rparr>
       (128, 128) (512, 512) 90 128 True (- 1) (7 / 10) 0 ''float32'' = Inr out' \<and>
     ct_heatmaps out' = ct_heatmaps out \<and>
     mset (instance_rows 3 out') = mset (instance_rows 3 out)"
proof -
  let ?L = "\<lparr>bbox = [(100, 300, 150, 370), (10, 300, 15, 370), (15, 100, 200, 170)] @
                replicate 125 (0, 0, 0, 0),
        classes = [1, 1, 1] @ replicate 125 (- 1),
        num_detections = 3\<rparr>"
  have n: "num_detections ?L = num_detections fixture_labels"
    by (simp add: fixture_labels_def)
  have p: "mset (instances ?L) = mset (instances fixture_labels)"
    by (simp add: instances_def fixture_labels_def)
  have k: "nat (num_detections fixture_labels) = 3"
    by (simp add: fixture_labels_def)
  from heatmap_permutation_invariant [OF fixture_valid_gaussian n p,
      of unit_radius "- 1" "7 / 10"]
  show ?thesis unfolding k by blast
qed

end
